theory Spec2Isabelle
  imports Main "HOL-Library.Sublist" "HOL-Library.Code_Target_Nat"
begin

section \<open>Python strings and bytes\<close>

text \<open>
  The script is read as Python 3. The output of a subprocess is \<open>bytes\<close>, a list of
  8-bit characters. A Python \<open>str\<close> is a list of Unicode code points, each a natural
  number. \<open>lit\<close> writes a \<open>str\<close> constant of the source from its ASCII
  characters. The names of template variables and the keys of the dictionaries are
  fixed ASCII names and stay of type \<open>string\<close>.
\<close>

type_synonym bytes = "char list"

type_synonym str = "nat list"

definition lit :: "string \<Rightarrow> str" where
  "lit s = map of_char s"

datatype error =
    IndexError
  | CalledProcessError int "str list"
  | UnicodeDecodeError
  | UndefinedError
  | TypeError
  | Unmodelled

text \<open>\<open>str.isspace\<close> on one code point.\<close>

definition isspace :: "nat \<Rightarrow> bool" where
  "isspace c = (c \<in> set [0x09, 0x0A, 0x0B, 0x0C, 0x0D, 0x1C, 0x1D, 0x1E, 0x1F, 0x20,
                          0x85, 0xA0, 0x1680, 0x2000, 0x2001, 0x2002, 0x2003, 0x2004,
                          0x2005, 0x2006, 0x2007, 0x2008, 0x2009, 0x200A, 0x2028, 0x2029,
                          0x202F, 0x205F, 0x3000])"

text \<open>The bytes that \<open>bytes.strip()\<close> removes: ASCII whitespace only.\<close>

definition bytes_isspace :: "char \<Rightarrow> bool" where
  "bytes_isspace c = (c \<in> set [CHR 0x09, CHR 0x0A, CHR 0x0B, CHR 0x0C, CHR 0x0D, CHR 0x20])"

text \<open>The line boundaries of \<open>str.splitlines()\<close>, apart from the pair CR LF.\<close>

definition is_linebreak :: "nat \<Rightarrow> bool" where
  "is_linebreak c = (c \<in> set [0x0A, 0x0B, 0x0C, 0x0D, 0x1C, 0x1D, 0x1E, 0x85, 0x2028, 0x2029])"

definition strip_with :: "('a \<Rightarrow> bool) \<Rightarrow> 'a list \<Rightarrow> 'a list" where
  "strip_with p s = rev (dropWhile p (rev (dropWhile p s)))"

definition str_strip :: "str \<Rightarrow> str" where
  "str_strip s = strip_with isspace s"

definition bytes_strip :: "bytes \<Rightarrow> bytes" where
  "bytes_strip s = strip_with bytes_isspace s"

text \<open>
  \<open>bytes.decode("UTF-8")\<close> with the default strict error handling: the well-formed
  sequences of one to four bytes give their code point; a byte that cannot start a
  sequence, a sequence cut short, a wrong continuation byte, an overlong form, a
  surrogate and a value above \<open>0x10FFFF\<close> raise \<open>UnicodeDecodeError\<close>.
\<close>

definition continuation :: "nat \<Rightarrow> bool" where
  "continuation b = (0x80 \<le> b \<and> b \<le> 0xBF)"

fun decode_utf8 :: "nat list \<Rightarrow> error + str" where
  "decode_utf8 [] = Inr []"
| "decode_utf8 (b # bs) =
     (if b < 0x80 then
        (case decode_utf8 bs of Inl e \<Rightarrow> Inl e | Inr cs \<Rightarrow> Inr (b # cs))
      else if 0xC2 \<le> b \<and> b \<le> 0xDF then
        (case bs of
           b1 # rest \<Rightarrow>
             if continuation b1 then
               (case decode_utf8 rest of
                  Inl e \<Rightarrow> Inl e
                | Inr cs \<Rightarrow> Inr (((b - 0xC0) * 64 + (b1 - 0x80)) # cs))
             else Inl UnicodeDecodeError
         | _ \<Rightarrow> Inl UnicodeDecodeError)
      else if 0xE0 \<le> b \<and> b \<le> 0xEF then
        (case bs of
           b1 # b2 # rest \<Rightarrow>
             if (if b = 0xE0 then 0xA0 else 0x80) \<le> b1
                \<and> b1 \<le> (if b = 0xED then 0x9F else 0xBF)
                \<and> continuation b2 then
               (case decode_utf8 rest of
                  Inl e \<Rightarrow> Inl e
                | Inr cs \<Rightarrow> Inr (((b - 0xE0) * 4096 + (b1 - 0x80) * 64 + (b2 - 0x80)) # cs))
             else Inl UnicodeDecodeError
         | _ \<Rightarrow> Inl UnicodeDecodeError)
      else if 0xF0 \<le> b \<and> b \<le> 0xF4 then
        (case bs of
           b1 # b2 # b3 # rest \<Rightarrow>
             if (if b = 0xF0 then 0x90 else 0x80) \<le> b1
                \<and> b1 \<le> (if b = 0xF4 then 0x8F else 0xBF)
                \<and> continuation b2 \<and> continuation b3 then
               (case decode_utf8 rest of
                  Inl e \<Rightarrow> Inl e
                | Inr cs \<Rightarrow>
                    Inr (((b - 0xF0) * 262144 + (b1 - 0x80) * 4096 + (b2 - 0x80) * 64
                          + (b3 - 0x80)) # cs))
             else Inl UnicodeDecodeError
         | _ \<Rightarrow> Inl UnicodeDecodeError)
      else Inl UnicodeDecodeError)"

definition decode :: "bytes \<Rightarrow> error + str" where
  "decode s = decode_utf8 (map of_char s)"

text \<open>
  \<open>str.split()\<close> with no separator: the maximal runs of characters that are not
  whitespace; \<open>acc\<close> is the token being read.
\<close>

fun split_acc :: "str \<Rightarrow> str \<Rightarrow> str list" where
  "split_acc acc [] = (if acc = [] then [] else [acc])"
| "split_acc acc (c # cs) =
     (if isspace c then (if acc = [] then split_acc [] cs else acc # split_acc [] cs)
      else split_acc (acc @ [c]) cs)"

definition str_split :: "str \<Rightarrow> str list" where
  "str_split s = split_acc [] s"

text \<open>
  \<open>str.splitlines()\<close>: a line ends at each line boundary, CR LF counts as one, and
  no empty last line is produced; \<open>acc\<close> is the line being read.
\<close>

fun splitlines_acc :: "str \<Rightarrow> str \<Rightarrow> str list" where
  "splitlines_acc acc [] = (if acc = [] then [] else [acc])"
| "splitlines_acc acc [c] = (if is_linebreak c then [acc] else [acc @ [c]])"
| "splitlines_acc acc (c # d # cs) =
     (if c = 0x0D \<and> d = 0x0A then acc # splitlines_acc [] cs
      else if is_linebreak c then acc # splitlines_acc [] (d # cs)
      else splitlines_acc (acc @ [c]) (d # cs))"

definition splitlines :: "str \<Rightarrow> str list" where
  "splitlines s = splitlines_acc [] s"

text \<open>
  \<open>str.replace(old, new)\<close>: every non-overlapping occurrence of \<open>old\<close>, from the
  left, becomes \<open>new\<close>. For an empty \<open>old\<close> Python puts \<open>new\<close> before every
  character and at the end.
\<close>

function replace_from :: "str \<Rightarrow> str \<Rightarrow> str \<Rightarrow> str" where
  "replace_from old new [] = []"
| "replace_from old new (c # cs) =
     (if old \<noteq> [] \<and> prefix old (c # cs)
      then new @ replace_from old new (drop (length old) (c # cs))
      else c # replace_from old new cs)"
  by pat_completeness auto
termination
  by (relation "measure (\<lambda>(old, new, s). length s)") auto

definition str_replace :: "str \<Rightarrow> str \<Rightarrow> str \<Rightarrow> str" where
  "str_replace s old new =
     (if old = [] then new @ concat (map (\<lambda>c. c # new) s) else replace_from old new s)"

text \<open>\<open>str.startswith\<close> and the operator \<open>in\<close> on strings.\<close>

definition startswith :: "str \<Rightarrow> str \<Rightarrow> bool" where
  "startswith s p = prefix p s"

fun str_contains :: "str \<Rightarrow> str \<Rightarrow> bool" where
  "str_contains [] sub = (sub = [])"
| "str_contains (c # cs) sub = (prefix sub (c # cs) \<or> str_contains cs sub)"

text \<open>\<open>str(n)\<close> for a non-negative integer: its decimal digits.\<close>

function str_of_nat :: "nat \<Rightarrow> str" where
  "str_of_nat n = (if n < 10 then [48 + n] else str_of_nat (n div 10) @ [48 + n mod 10])"
  by pat_completeness auto
termination
  by (relation "measure (\<lambda>n. n)") auto

section \<open>Subprocesses\<close>

text \<open>
  The repository is read through git only. A subprocess is its argument vector; the
  environment maps it to the exit code and the bytes of the standard output. The
  working tree is not changed by any command the script runs, so the same command
  gives the same answer.
\<close>

type_synonym subprocess = "str list \<Rightarrow> int \<times> bytes"

text \<open>\<open>subprocess.check_output\<close> raises on a non-zero exit code.\<close>

definition check_output :: "subprocess \<Rightarrow> str list \<Rightarrow> error + bytes" where
  "check_output run cmd =
     (case run cmd of (ret_code, out) \<Rightarrow>
        if ret_code = 0 then Inr out else Inl (CalledProcessError ret_code cmd))"

text \<open>\<open>subprocess.call\<close> returns the exit code.\<close>

definition call :: "subprocess \<Rightarrow> str list \<Rightarrow> int" where
  "call run cmd = fst (run cmd)"

section \<open>The classifier\<close>

type_synonym pydict = "(string \<times> str) list"

text \<open>The three module-level lists.\<close>

record globals =
  files_to_be_deleted :: "str list"
  files_to_be_renamed :: "pydict list"
  files_to_be_modified :: "pydict list"

definition initial_globals :: globals where
  "initial_globals =
     \<lparr>files_to_be_deleted = [], files_to_be_renamed = [], files_to_be_modified = []\<rparr>"

definition git_diff :: "subprocess \<Rightarrow> str \<Rightarrow> str \<Rightarrow> str \<Rightarrow> bool \<Rightarrow> error + str" where
  "git_diff run filepath l_commit r_commit shortstat =
     (let cmd = (if shortstat
                 then [lit ''git'', lit ''diff'', l_commit, r_commit, lit ''--shortstat'', lit ''--'',
                       filepath]
                 else [lit ''git'', lit ''diff'', l_commit, r_commit, lit ''--'', filepath])
      in case check_output run cmd of
           Inl e \<Rightarrow> Inl e
         | Inr out \<Rightarrow>
             (case decode out of
                Inl e \<Rightarrow> Inl e
              | Inr text \<Rightarrow> Inr (str_strip text)))"

definition git_exists :: "subprocess \<Rightarrow> str \<Rightarrow> str \<Rightarrow> bool" where
  "git_exists run path filepath =
     (let cmd = [lit ''git'', lit ''cat-file'', lit ''-e'', path @ lit '':'' @ filepath];
          ret_code = call run cmd
      in ret_code = 0)"

text \<open>
  A statement that raises leaves the lists as they are at that moment: the result is
  the error or \<open>()\<close>, paired with the lists.
\<close>

definition process_diff_status ::
  "subprocess \<Rightarrow> str list \<Rightarrow> str \<Rightarrow> str \<Rightarrow> str \<Rightarrow> str \<Rightarrow> globals
     \<Rightarrow> (error + unit) \<times> globals" where
  "process_diff_status run diff_status l_commit r_commit src_lang_path l10n_lang_path g =
     (case diff_status of
        [] \<Rightarrow> (Inl IndexError, g)
      | status_letter # after0 \<Rightarrow>
          (case after0 of
             [] \<Rightarrow> (Inl IndexError, g)
           | filepath # after1 \<Rightarrow>
               if git_exists run r_commit (str_replace filepath src_lang_path l10n_lang_path)
               then
                 if status_letter = lit ''D''
                 then (Inr (), g\<lparr>files_to_be_deleted := files_to_be_deleted g @ [filepath]\<rparr>)
                 else if startswith status_letter (lit ''R'')
                 then
                   (case after1 of
                      [] \<Rightarrow> (Inl IndexError, g)
                    | dest # after2 \<Rightarrow>
                        (let replaced = [(''diff_status_letter'', status_letter),
                                         (''src_filepath'', filepath),
                                         (''dest_filepath'', dest)]
                         in (Inr (), g\<lparr>files_to_be_renamed := files_to_be_renamed g @ [replaced]\<rparr>)))
                 else if status_letter = lit ''M''
                 then
                   (case git_diff run filepath l_commit r_commit True of
                      Inl e \<Rightarrow> (Inl e, g)
                    | Inr short \<Rightarrow>
                        (case git_diff run filepath l_commit r_commit False of
                           Inl e \<Rightarrow> (Inl e, g)
                         | Inr full \<Rightarrow>
                             (let modified = [(''filepath'', filepath),
                                              (''shortstat'', short),
                                              (''diff'', full)]
                              in (Inr (), g\<lparr>files_to_be_modified := files_to_be_modified g @ [modified]\<rparr>))))
                 else (Inr (), g)
               else (Inr (), g)))"

text \<open>The loop over the lines of the name-status output; it stops at the first error.\<close>

fun process_lines ::
  "subprocess \<Rightarrow> str list \<Rightarrow> str \<Rightarrow> str \<Rightarrow> str \<Rightarrow> str \<Rightarrow> globals
     \<Rightarrow> (error + unit) \<times> globals" where
  "process_lines run [] l_commit r_commit src_lang_path l10n_lang_path g = (Inr (), g)"
| "process_lines run (line # lines) l_commit r_commit src_lang_path l10n_lang_path g =
     (let diff_status = str_split line
      in case process_diff_status run diff_status l_commit r_commit src_lang_path l10n_lang_path g of
           (Inl e, g') \<Rightarrow> (Inl e, g')
         | (Inr u, g') \<Rightarrow> process_lines run lines l_commit r_commit src_lang_path l10n_lang_path g')"

definition git_diff_name_status ::
  "subprocess \<Rightarrow> str \<Rightarrow> str \<Rightarrow> str \<Rightarrow> str \<Rightarrow> globals \<Rightarrow> (error + unit) \<times> globals" where
  "git_diff_name_status run l_commit r_commit src_lang_path l10n_lang_path g =
     (let cmd = [lit ''git'', lit ''diff'', l_commit, r_commit, lit ''--name-status'', lit ''--'',
                 src_lang_path]
      in case check_output run cmd of
           Inl e \<Rightarrow> (Inl e, g)
         | Inr out \<Rightarrow>
             (let name_status_output = bytes_strip out
              in case decode name_status_output of
                   Inl e \<Rightarrow> (Inl e, g)
                 | Inr text \<Rightarrow>
                     process_lines run (splitlines text)
                       l_commit r_commit src_lang_path l10n_lang_path g))"

section \<open>The report template\<close>

text \<open>
  The values a template sees, and the part of the template language that
  \<open>ISSUE_TEMPLATE\<close> is written in. A dictionary is an association list; the three
  lists reach the template as lists of strings and of dictionaries.
\<close>

datatype jval =
    JStr str
  | JInt nat
  | JList "jval list"
  | JDict "(string \<times> jval) list"
  | JUndefined

datatype jexpr =
    Name string
  | Getattr jexpr string
  | Getitem jexpr nat
  | Filter_count jexpr
  | Filter_replace jexpr jexpr jexpr

datatype jnode =
    TemplateData str
  | Output jexpr
  | For string jexpr "jnode list"
  | If jexpr "jnode list"

type_synonym jcontext = "(string \<times> jval) list"

text \<open>
  \<open>str(v)\<close> as the template engine prints a value. The \<open>repr\<close> of a list or a
  dictionary is outside this model (\<open>Unmodelled\<close>); the template never prints one.
\<close>

fun to_str :: "jval \<Rightarrow> error + str" where
  "to_str (JStr s) = Inr s"
| "to_str (JInt n) = Inr (str_of_nat n)"
| "to_str JUndefined = Inr []"
| "to_str (JList vs) = Inl Unmodelled"
| "to_str (JDict kvs) = Inl Unmodelled"

fun truthy :: "jval \<Rightarrow> bool" where
  "truthy (JStr s) = (s \<noteq> [])"
| "truthy (JInt n) = (n \<noteq> 0)"
| "truthy (JList vs) = (vs \<noteq> [])"
| "truthy (JDict kvs) = (kvs \<noteq> [])"
| "truthy JUndefined = False"

text \<open>
  A name that is not in the context, a key that is not in the dictionary and an index
  out of range give the undefined value; an attribute or item of the undefined value
  raises. \<open>count\<close> is \<open>len\<close>; \<open>replace\<close> is \<open>str.replace\<close> on the printed values
  (autoescaping is off).
\<close>

fun eval_expr :: "jcontext \<Rightarrow> jexpr \<Rightarrow> error + jval" where
  "eval_expr ctx (Name x) =
     (case map_of ctx x of None \<Rightarrow> Inr JUndefined | Some v \<Rightarrow> Inr v)"
| "eval_expr ctx (Getattr e a) =
     (case eval_expr ctx e of
        Inl err \<Rightarrow> Inl err
      | Inr (JDict kvs) \<Rightarrow> (case map_of kvs a of None \<Rightarrow> Inr JUndefined | Some v \<Rightarrow> Inr v)
      | Inr JUndefined \<Rightarrow> Inl UndefinedError
      | Inr _ \<Rightarrow> Inr JUndefined)"
| "eval_expr ctx (Getitem e i) =
     (case eval_expr ctx e of
        Inl err \<Rightarrow> Inl err
      | Inr (JList vs) \<Rightarrow> (if i < length vs then Inr (vs ! i) else Inr JUndefined)
      | Inr JUndefined \<Rightarrow> Inl UndefinedError
      | Inr _ \<Rightarrow> Inr JUndefined)"
| "eval_expr ctx (Filter_count e) =
     (case eval_expr ctx e of
        Inl err \<Rightarrow> Inl err
      | Inr (JStr s) \<Rightarrow> Inr (JInt (length s))
      | Inr (JList vs) \<Rightarrow> Inr (JInt (length vs))
      | Inr (JDict kvs) \<Rightarrow> Inr (JInt (length kvs))
      | Inr JUndefined \<Rightarrow> Inr (JInt 0)
      | Inr (JInt n) \<Rightarrow> Inl TypeError)"
| "eval_expr ctx (Filter_replace e old new) =
     (case eval_expr ctx e of
        Inl err \<Rightarrow> Inl err
      | Inr v \<Rightarrow>
          (case eval_expr ctx old of
             Inl err \<Rightarrow> Inl err
           | Inr vo \<Rightarrow>
               (case eval_expr ctx new of
                  Inl err \<Rightarrow> Inl err
                | Inr vn \<Rightarrow>
                    (case to_str v of
                       Inl err \<Rightarrow> Inl err
                     | Inr s \<Rightarrow>
                         (case to_str vo of
                            Inl err \<Rightarrow> Inl err
                          | Inr so \<Rightarrow>
                              (case to_str vn of
                                 Inl err \<Rightarrow> Inl err
                               | Inr sn \<Rightarrow> Inr (JStr (str_replace s so sn))))))))"

text \<open>
  Rendering. A \<open>for\<close> binds its variable in front of the context for the body only;
  iterating a string or a dictionary is outside this model, the undefined value
  iterates as the empty list.
\<close>

fun render_node :: "jcontext \<Rightarrow> jnode \<Rightarrow> error + str"
  and render_nodes :: "jcontext \<Rightarrow> jnode list \<Rightarrow> error + str"
  and render_loop :: "jcontext \<Rightarrow> string \<Rightarrow> jnode list \<Rightarrow> jval list \<Rightarrow> error + str" where
  "render_node ctx (TemplateData s) = Inr s"
| "render_node ctx (Output e) =
     (case eval_expr ctx e of Inl err \<Rightarrow> Inl err | Inr v \<Rightarrow> to_str v)"
| "render_node ctx (For x e body) =
     (case eval_expr ctx e of
        Inl err \<Rightarrow> Inl err
      | Inr (JList vs) \<Rightarrow> render_loop ctx x body vs
      | Inr JUndefined \<Rightarrow> Inr []
      | Inr (JInt n) \<Rightarrow> Inl TypeError
      | Inr _ \<Rightarrow> Inl Unmodelled)"
| "render_node ctx (If e body) =
     (case eval_expr ctx e of
        Inl err \<Rightarrow> Inl err
      | Inr v \<Rightarrow> if truthy v then render_nodes ctx body else Inr [])"
| "render_nodes ctx [] = Inr []"
| "render_nodes ctx (n # ns) =
     (case render_node ctx n of
        Inl err \<Rightarrow> Inl err
      | Inr s \<Rightarrow> (case render_nodes ctx ns of Inl err \<Rightarrow> Inl err | Inr t \<Rightarrow> Inr (s @ t)))"
| "render_loop ctx x body [] = Inr []"
| "render_loop ctx x body (v # vs) =
     (case render_nodes ((x, v) # ctx) body of
        Inl err \<Rightarrow> Inl err
      | Inr s \<Rightarrow> (case render_loop ctx x body vs of Inl err \<Rightarrow> Inl err | Inr t \<Rightarrow> Inr (s @ t)))"

text \<open>
  \<open>ISSUE_TEMPLATE\<close>, as the engine's default settings read it: the marker \<open>-%}\<close>
  removes the whitespace after a \<open>for\<close> tag (the line break and the two spaces
  before \<open>1. [ ]\<close>), every other line break is kept, and the one line break at the
  very end of the template is dropped.
\<close>

definition ISSUE_TEMPLATE :: "jnode list" where
  "ISSUE_TEMPLATE =
    [TemplateData (lit ''# This is a Bug Report\<newline>## Problem\<newline>Outdated files in the ''),
     Output (Name ''r_commit''),
     TemplateData (lit '' branch.\<newline>\<newline>### ''),
     Output (Filter_count (Name ''files_to_be_modified'')),
     TemplateData (lit '' files to be modified \<newline>''),
     For ''m_file'' (Name ''files_to_be_modified'')
       [TemplateData (lit ''1. [ ] ''),
        Output (Getattr (Name ''m_file'') ''filepath''),
        TemplateData (lit '' ''),
        Output (Getattr (Name ''m_file'') ''shortstat''),
        TemplateData (lit ''\<newline>'')],
     TemplateData (lit ''\<newline>\<newline>### ''),
     Output (Filter_count (Name ''files_to_be_renamed'')),
     TemplateData (lit '' files to be renamed  \<newline>''),
     For ''r_file'' (Name ''files_to_be_renamed'')
       [TemplateData (lit ''1. [ ] ''),
        Output (Getattr (Name ''r_file'') ''diff_status_letter''),
        TemplateData (lit '' ''),
        Output (Getattr (Name ''r_file'') ''src_filepath''),
        TemplateData (lit '' -> ''),
        Output (Getattr (Name ''r_file'') ''dest_filepath''),
        TemplateData (lit ''\<newline>'')],
     TemplateData (lit ''\<newline>\<newline>### ''),
     Output (Filter_count (Name ''files_to_be_deleted'')),
     TemplateData (lit '' files to be deleted \<newline>''),
     For ''d_file'' (Name ''files_to_be_deleted'')
       [TemplateData (lit ''1. [ ] ''),
        Output (Name ''d_file''),
        TemplateData (lit ''\<newline>'')],
     TemplateData (lit ''\<newline>\<newline>## Proposed Solution\<newline>\<newline>''),
     If (Name ''files_to_be_modified'')
       [TemplateData (lit ''\<newline>\<newline>Use `git diff` to check what is changed in the upstream. And apply the upstream changes manually \<newline>to the `''),
        Output (Name ''l10n_lang_path''),
        TemplateData (lit ''` of `''),
        Output (Name ''r_commit''),
        TemplateData (lit ''` branch.\<newline>\<newline>For example:\<newline>```\<newline># checkout `''),
        Output (Name ''r_commit''),
        TemplateData (lit ''`\<newline>...\<newline># check what is updated in the upstream \<newline>git diff ''),
        Output (Name ''l_commit''),
        TemplateData (lit '' ''),
        Output (Name ''r_commit''),
        TemplateData (lit '' -- ''),
        Output (Getattr (Getitem (Name ''files_to_be_modified'') 0) ''filepath''),
        TemplateData (lit ''\<newline># apply changes to content/ko\<newline>vi ''),
        Output (Filter_replace (Getattr (Getitem (Name ''files_to_be_modified'') 0) ''filepath'')
                  (Name ''src_lang_path'') (Name ''l10n_lang_path'')),
        TemplateData (lit ''\<newline>...\<newline># commit and push\<newline>...\<newline># make PR to `''),
        Output (Name ''r_commit''),
        TemplateData (lit ''`\<newline>```\<newline>\<newline>'')],
     TemplateData (lit ''\<newline>\<newline>## Pages to Update\<newline>'')]"

text \<open>A Python dictionary of strings as the template sees it.\<close>

definition dict_val :: "pydict \<Rightarrow> jval" where
  "dict_val d = JDict (map (\<lambda>(k, v). (k, JStr v)) d)"

text \<open>\<open>jinja2.Template(ISSUE_TEMPLATE).render(...)\<close> with the keyword arguments of \<open>main\<close>.\<close>

definition render ::
  "str \<Rightarrow> str \<Rightarrow> str \<Rightarrow> str \<Rightarrow> globals \<Rightarrow> error + str" where
  "render l_commit r_commit src_lang_path l10n_lang_path g =
     render_nodes
       [(''l_commit'', JStr l_commit),
        (''r_commit'', JStr r_commit),
        (''src_lang_path'', JStr src_lang_path),
        (''l10n_lang_path'', JStr l10n_lang_path),
        (''files_to_be_deleted'', JList (map JStr (files_to_be_deleted g))),
        (''files_to_be_modified'', JList (map dict_val (files_to_be_modified g))),
        (''files_to_be_renamed'', JList (map dict_val (files_to_be_renamed g)))]
       ISSUE_TEMPLATE"

text \<open>
  \<open>main\<close>: the lists are empty when the module is loaded; the result is the text
  written to standard output (\<open>print\<close> ends it with a line break) or the error that
  ends the process.
\<close>

definition main :: "subprocess \<Rightarrow> str \<Rightarrow> str \<Rightarrow> str \<Rightarrow> str \<Rightarrow> error + str" where
  "main run l10n_lang src_lang l_commit r_commit =
     (let l10n_lang_path = lit ''content/'' @ l10n_lang;
          src_lang_path = lit ''content/'' @ src_lang
      in case git_diff_name_status run l_commit r_commit src_lang_path l10n_lang_path initial_globals of
           (Inl e, g) \<Rightarrow> Inl e
         | (Inr u, g) \<Rightarrow>
             (case render l_commit r_commit src_lang_path l10n_lang_path g of
                Inl e \<Rightarrow> Inl e
              | Inr ret \<Rightarrow> Inr (ret @ lit ''\<newline>'')))"

section \<open>Reference notions\<close>

text \<open>
  A line of \<open>git diff --name-status\<close> as git prints it: the status and the path, or
  the status and the two paths of a rename, separated by TAB. \<open>tab_line\<close> joins the
  fields, \<open>tab_fields\<close> takes a line apart again, and the primary path of a line is
  its second field. A path is printed as it is unless it has a character that git
  quotes; a space is not quoted.
\<close>

fun tab_line :: "str list \<Rightarrow> str" where
  "tab_line [] = []"
| "tab_line [f] = f"
| "tab_line (f # f' # fs) = f @ 0x09 # tab_line (f' # fs)"

fun fields_acc :: "str \<Rightarrow> str \<Rightarrow> str list" where
  "fields_acc acc [] = [acc]"
| "fields_acc acc (c # cs) =
     (if c = 0x09 then acc # fields_acc [] cs else fields_acc (acc @ [c]) cs)"

definition tab_fields :: "str \<Rightarrow> str list" where
  "tab_fields line = fields_acc [] line"

definition primary_path :: "str \<Rightarrow> str option" where
  "primary_path line = (case tab_fields line of status # path # rest \<Rightarrow> Some path | _ \<Rightarrow> None)"

text \<open>
  A path is an object of a revision when \<open>git cat-file -e revision:path\<close> exits with
  0. The localized counterpart of a line exists: the primary path of the line, with the
  source path replaced by the target path, is an object of the newer revision.
\<close>

definition object_exists :: "subprocess \<Rightarrow> str \<Rightarrow> str \<Rightarrow> bool" where
  "object_exists run revision path =
     (fst (run [lit ''git'', lit ''cat-file'', lit ''-e'', revision @ lit '':'' @ path]) = 0)"

definition counterpart_exists :: "subprocess \<Rightarrow> str \<Rightarrow> str \<Rightarrow> str \<Rightarrow> str \<Rightarrow> bool" where
  "counterpart_exists run r_commit src_lang_path l10n_lang_path line =
     (case primary_path line of
        None \<Rightarrow> False
      | Some path \<Rightarrow> object_exists run r_commit (str_replace path src_lang_path l10n_lang_path))"

text \<open>
  A field that the whitespace split returns as it is and that git printed unquoted: it
  is not empty, has no whitespace character and does not begin with a double quote.
\<close>

definition plain_field :: "str \<Rightarrow> bool" where
  "plain_field f = (f \<noteq> [] \<and> (\<forall>c\<in>set f. \<not> isspace c) \<and> hd f \<noteq> 0x22)"

text \<open>The lines that a pass goes through, or the error that ends it before the first line.\<close>

definition status_lines :: "subprocess \<Rightarrow> str \<Rightarrow> str \<Rightarrow> str \<Rightarrow> error + str list" where
  "status_lines run l_commit r_commit src_lang_path =
     (case check_output run [lit ''git'', lit ''diff'', l_commit, r_commit, lit ''--name-status'',
                             lit ''--'', src_lang_path] of
        Inl e \<Rightarrow> Inl e
      | Inr out \<Rightarrow>
          (case decode (bytes_strip out) of
             Inl e \<Rightarrow> Inl e
           | Inr text \<Rightarrow> Inr (splitlines text)))"

text \<open>The value of a key as the template prints it: nothing when the key is missing.\<close>

definition printed :: "pydict \<Rightarrow> string \<Rightarrow> str" where
  "printed d k = (case map_of d k of None \<Rightarrow> [] | Some v \<Rightarrow> v)"

text \<open>The lists of \<open>g\<close>, each followed by the corresponding list of \<open>d\<close>.\<close>

definition appended :: "globals \<Rightarrow> globals \<Rightarrow> globals" where
  "appended g d =
     \<lparr>files_to_be_deleted = files_to_be_deleted g @ files_to_be_deleted d,
      files_to_be_renamed = files_to_be_renamed g @ files_to_be_renamed d,
      files_to_be_modified = files_to_be_modified g @ files_to_be_modified d\<rparr>"

text \<open>
  The two parts of a rendered report around the header of the proposed solution: the
  title with the three checklists, and the text under the header.
\<close>

definition checklists :: "str \<Rightarrow> globals \<Rightarrow> str" where
  "checklists r_commit g =
     lit ''# This is a Bug Report\<newline>## Problem\<newline>Outdated files in the '' @ r_commit
     @ lit '' branch.\<newline>\<newline>### '' @ str_of_nat (length (files_to_be_modified g))
     @ lit '' files to be modified \<newline>''
     @ concat (map (\<lambda>m. lit ''1. [ ] '' @ printed m ''filepath'' @ lit '' ''
                      @ printed m ''shortstat'' @ lit ''\<newline>'') (files_to_be_modified g))
     @ lit ''\<newline>\<newline>### '' @ str_of_nat (length (files_to_be_renamed g))
     @ lit '' files to be renamed  \<newline>''
     @ concat (map (\<lambda>d. lit ''1. [ ] '' @ printed d ''diff_status_letter'' @ lit '' ''
                      @ printed d ''src_filepath'' @ lit '' -> '' @ printed d ''dest_filepath''
                      @ lit ''\<newline>'') (files_to_be_renamed g))
     @ lit ''\<newline>\<newline>### '' @ str_of_nat (length (files_to_be_deleted g))
     @ lit '' files to be deleted \<newline>''
     @ concat (map (\<lambda>d. lit ''1. [ ] '' @ d @ lit ''\<newline>'') (files_to_be_deleted g))"

definition solution_body :: "str \<Rightarrow> str \<Rightarrow> str \<Rightarrow> str \<Rightarrow> pydict list \<Rightarrow> str" where
  "solution_body l_commit r_commit src_lang_path l10n_lang_path ms =
     (case ms of
        [] \<Rightarrow> []
      | m # rest \<Rightarrow>
          lit ''\<newline>\<newline>Use `git diff` to check what is changed in the upstream. And apply the upstream changes manually \<newline>to the `''
          @ l10n_lang_path @ lit ''` of `'' @ r_commit
          @ lit ''` branch.\<newline>\<newline>For example:\<newline>```\<newline># checkout `'' @ r_commit
          @ lit ''`\<newline>...\<newline># check what is updated in the upstream \<newline>git diff ''
          @ l_commit @ lit '' '' @ r_commit @ lit '' -- '' @ printed m ''filepath''
          @ lit ''\<newline># apply changes to content/ko\<newline>vi ''
          @ str_replace (printed m ''filepath'') src_lang_path l10n_lang_path
          @ lit ''\<newline>...\<newline># commit and push\<newline>...\<newline># make PR to `'' @ r_commit
          @ lit ''`\<newline>```\<newline>\<newline>'')"

section \<open>Scenarios\<close>

text \<open>
  A repository for the scenario \<open>diff_l10n_branches.py ko dev-1.15-ko.3 dev-1.15-ko.4\<close>:
  between the two branches \<open>a.md\<close> and \<open>f.md\<close> were modified, \<open>b.md\<close> deleted,
  \<open>c.md\<close> renamed to \<open>d.md\<close> and \<open>e.md\<close> added; the newer branch has Korean pages
  for \<open>a.md\<close>, \<open>b.md\<close>, \<open>c.md\<close> and \<open>e.md\<close> but none for \<open>f.md\<close>. Every other
  command fails with exit code 128.
\<close>

definition scenario_run :: subprocess where
  "scenario_run cmd =
     (if cmd = map lit [''git'', ''diff'', ''dev-1.15-ko.3'', ''dev-1.15-ko.4'', ''--name-status'',
                        ''--'', ''content/en'']
      then (0, ''M'' @ [CHR 0x09] @ ''content/en/docs/a.md\<newline>''
               @ ''D'' @ [CHR 0x09] @ ''content/en/docs/b.md\<newline>''
               @ ''R100'' @ [CHR 0x09] @ ''content/en/docs/c.md'' @ [CHR 0x09] @ ''content/en/docs/d.md\<newline>''
               @ ''A'' @ [CHR 0x09] @ ''content/en/docs/e.md\<newline>''
               @ ''M'' @ [CHR 0x09] @ ''content/en/docs/f.md\<newline>'')
      else if cmd \<in> set (map (map lit)
                         [[''git'', ''cat-file'', ''-e'', ''dev-1.15-ko.4:content/ko/docs/a.md''],
                          [''git'', ''cat-file'', ''-e'', ''dev-1.15-ko.4:content/ko/docs/b.md''],
                          [''git'', ''cat-file'', ''-e'', ''dev-1.15-ko.4:content/ko/docs/c.md''],
                          [''git'', ''cat-file'', ''-e'', ''dev-1.15-ko.4:content/ko/docs/e.md'']])
      then (0, [])
      else if cmd = map lit [''git'', ''diff'', ''dev-1.15-ko.3'', ''dev-1.15-ko.4'', ''--shortstat'',
                             ''--'', ''content/en/docs/a.md'']
      then (0, '' 1 file changed, 1 insertion(+), 1 deletion(-)\<newline>'')
      else if cmd = map lit [''git'', ''diff'', ''dev-1.15-ko.3'', ''dev-1.15-ko.4'', ''--'',
                             ''content/en/docs/a.md'']
      then (0, ''@@ -1 +1 @@\<newline>-old\<newline>+new\<newline>'')
      else (128, []))"

text \<open>The lists after the classification of that scenario.\<close>

definition scenario_globals :: globals where
  "scenario_globals =
     \<lparr>files_to_be_deleted = [lit ''content/en/docs/b.md''],
      files_to_be_renamed = [[(''diff_status_letter'', lit ''R100''),
                              (''src_filepath'', lit ''content/en/docs/c.md''),
                              (''dest_filepath'', lit ''content/en/docs/d.md'')]],
      files_to_be_modified = [[(''filepath'', lit ''content/en/docs/a.md''),
                               (''shortstat'', lit ''1 file changed, 1 insertion(+), 1 deletion(-)''),
                               (''diff'', lit ''@@ -1 +1 @@\<newline>-old\<newline>+new'')]]\<rparr>"

text \<open>
  The same scenario with a repository that cannot read the contents of \<open>a.md\<close>: the
  comparison of the names succeeds and reports \<open>a.md\<close> as modified, the Korean page
  exists, and every \<open>git diff\<close> of the file itself fails with exit code 128.
\<close>

definition unreadable_run :: subprocess where
  "unreadable_run cmd =
     (if cmd = map lit [''git'', ''diff'', ''dev-1.15-ko.3'', ''dev-1.15-ko.4'', ''--name-status'',
                        ''--'', ''content/en'']
      then (0, ''M'' @ [CHR 0x09] @ ''content/en/docs/a.md\<newline>'')
      else if cmd = map lit [''git'', ''cat-file'', ''-e'', ''dev-1.15-ko.4:content/ko/docs/a.md'']
      then (0, [])
      else (128, []))"

text \<open>
  Repositories with files whose names contain a space. Between the revisions \<open>L\<close>
  and \<open>R\<close> the file \<open>content/en/a b.md\<close> was modified; \<open>objects\<close> are the objects
  that exist. Nothing changed under the path \<open>content/en/a\<close>, so \<open>git diff\<close>
  limited to it prints nothing and succeeds.
\<close>

definition spaced_run :: "str list \<Rightarrow> subprocess" where
  "spaced_run objects cmd =
     (if cmd = map lit [''git'', ''diff'', ''L'', ''R'', ''--name-status'', ''--'', ''content/en'']
      then (0, ''M'' @ [CHR 0x09] @ ''content/en/a b.md\<newline>'')
      else if cmd \<in> set (map (\<lambda>obj. [lit ''git'', lit ''cat-file'', lit ''-e'', obj]) objects)
      then (0, [])
      else if cmd = map lit [''git'', ''diff'', ''L'', ''R'', ''--shortstat'', ''--'', ''content/en/a'']
      then (0, [])
      else if cmd = map lit [''git'', ''diff'', ''L'', ''R'', ''--'', ''content/en/a'']
      then (0, [])
      else if cmd = map lit [''git'', ''diff'', ''L'', ''R'', ''--shortstat'', ''--'', ''content/en/a b.md'']
      then (0, '' 1 file changed, 1 insertion(+), 1 deletion(-)\<newline>'')
      else if cmd = map lit [''git'', ''diff'', ''L'', ''R'', ''--'', ''content/en/a b.md'']
      then (0, ''@@ -1 +1 @@\<newline>-old\<newline>+new\<newline>'')
      else (128, []))"

text \<open>
  Two modified files, \<open>content/en/a b.md\<close> and \<open>content/en/a c.md\<close>, neither with
  a Korean page, and an object \<open>content/ko/a\<close> at the newer revision.
\<close>

definition spaces_run :: subprocess where
  "spaces_run cmd =
     (if cmd = map lit [''git'', ''diff'', ''L'', ''R'', ''--name-status'', ''--'', ''content/en'']
      then (0, ''M'' @ [CHR 0x09] @ ''content/en/a b.md\<newline>''
               @ ''M'' @ [CHR 0x09] @ ''content/en/a c.md\<newline>'')
      else if cmd = map lit [''git'', ''cat-file'', ''-e'', ''R:content/ko/a'']
      then (0, [])
      else if cmd = map lit [''git'', ''diff'', ''L'', ''R'', ''--shortstat'', ''--'', ''content/en/a'']
      then (0, [])
      else if cmd = map lit [''git'', ''diff'', ''L'', ''R'', ''--'', ''content/en/a'']
      then (0, [])
      else (128, []))"

text \<open>
  The file \<open>content/en/a b.md\<close> was renamed to \<open>content/en/c.md\<close>; \<open>objects\<close> are
  the objects that exist.
\<close>

definition renamed_spaced_run :: "str list \<Rightarrow> subprocess" where
  "renamed_spaced_run objects cmd =
     (if cmd = map lit [''git'', ''diff'', ''L'', ''R'', ''--name-status'', ''--'', ''content/en'']
      then (0, ''R100'' @ [CHR 0x09] @ ''content/en/a b.md'' @ [CHR 0x09] @ ''content/en/c.md\<newline>'')
      else if cmd \<in> set (map (\<lambda>obj. [lit ''git'', lit ''cat-file'', lit ''-e'', obj]) objects)
      then (0, [])
      else (128, []))"

section \<open>Lemmas on the classifier\<close>

lemma appended_initial [simp]: "appended initial_globals d = d" "appended g initial_globals = g"
  by (simp_all add: appended_def initial_globals_def)

lemma appended_assoc: "appended (appended g d) e = appended g (appended d e)"
  by (simp add: appended_def)

text \<open>One line appends to the lists, whatever they hold, what it appends to empty lists.\<close>

lemma process_diff_status_appended:
  "process_diff_status run ds l r s t g =
     (case process_diff_status run ds l r s t initial_globals of (res, d) \<Rightarrow> (res, appended g d))"
  by (simp add: process_diff_status_def appended_def initial_globals_def Let_def
           split: list.split sum.split)

lemma process_lines_appended:
  "process_lines run lines l r s t g =
     (case process_lines run lines l r s t initial_globals of (res, d) \<Rightarrow> (res, appended g d))"
proof (induction lines arbitrary: g)
  case Nil
  show ?case by simp
next
  case (Cons line lines)
  obtain res1 d1 where one: "process_diff_status run (str_split line) l r s t initial_globals = (res1, d1)"
    by (cases "process_diff_status run (str_split line) l r s t initial_globals")
  have here: "process_diff_status run (str_split line) l r s t g = (res1, appended g d1)"
    using process_diff_status_appended [of run "str_split line" l r s t g] one by simp
  show ?case
  proof (cases res1)
    case (Inl e)
    with one here show ?thesis by simp
  next
    case (Inr u)
    obtain res2 d2 where rest: "process_lines run lines l r s t initial_globals = (res2, d2)"
      by (cases "process_lines run lines l r s t initial_globals")
    have a: "process_lines run lines l r s t (appended g d1) = (res2, appended (appended g d1) d2)"
      using Cons.IH [of "appended g d1"] rest by simp
    have b: "process_lines run lines l r s t d1 = (res2, appended d1 d2)"
      using Cons.IH [of d1] rest by simp
    from Inr one here a b show ?thesis by (simp add: appended_assoc)
  qed
qed

text \<open>A pass is the loop over its lines.\<close>

lemma git_diff_name_status_lines:
  "git_diff_name_status run l r s t g =
     (case status_lines run l r s of
        Inl e \<Rightarrow> (Inl e, g)
      | Inr lines \<Rightarrow> process_lines run lines l r s t g)"
  by (simp add: git_diff_name_status_def status_lines_def Let_def split: sum.split)

lemma git_diff_name_status_appended:
  "git_diff_name_status run l r s t g =
     (case git_diff_name_status run l r s t initial_globals of (res, d) \<Rightarrow> (res, appended g d))"
proof (cases "status_lines run l r s")
  case (Inl e)
  then show ?thesis by (simp add: git_diff_name_status_lines)
next
  case (Inr lines)
  then show ?thesis
    using process_lines_appended [of run lines l r s t g]
    by (simp add: git_diff_name_status_lines)
qed

text \<open>A token is read to its first whitespace character.\<close>

lemma split_acc_token:
  "\<forall>c\<in>set p. \<not> isspace c \<Longrightarrow> split_acc acc (p @ rest) = split_acc (acc @ p) rest"
  by (induction p arbitrary: acc) auto

lemma str_split_two:
  assumes "tok \<noteq> []" "\<forall>c\<in>set tok. \<not> isspace c" "isspace w1"
    and "p \<noteq> []" "\<forall>c\<in>set p. \<not> isspace c" "isspace w2"
  shows "str_split (tok @ w1 # p @ w2 # rest) = tok # p # str_split rest"
proof -
  have "split_acc [] (tok @ w1 # p @ w2 # rest) = split_acc tok (w1 # p @ w2 # rest)"
    using split_acc_token [of tok "[]"] assms(2) by simp
  also have "\<dots> = tok # split_acc [] (p @ w2 # rest)"
    using assms(1,3) by simp
  also have "split_acc [] (p @ w2 # rest) = split_acc p (w2 # rest)"
    using split_acc_token [of p "[]"] assms(5) by simp
  also have "\<dots> = p # split_acc [] rest"
    using assms(4,6) by simp
  finally show ?thesis by (simp add: str_split_def)
qed

text \<open>
  On a line whose fields are plain the whitespace split returns the fields, and the
  second field is the primary path.
\<close>

lemma isspace_tab: "isspace 9"
  by (simp add: isspace_def)

lemma str_split_plain:
  assumes "plain_field f"
  shows "str_split f = [f]"
proof -
  from assms have ne: "f \<noteq> []" and ns: "\<forall>c\<in>set f. \<not> isspace c"
    by (simp_all add: plain_field_def)
  have "split_acc [] (f @ []) = split_acc ([] @ f) []"
    using ns by (rule split_acc_token)
  with ne show ?thesis by (simp add: str_split_def)
qed

lemma str_split_line2:
  assumes "plain_field tok" "plain_field path"
  shows "str_split (tab_line [tok, path]) = [tok, path]"
proof -
  from assms(1) have ne: "tok \<noteq> []" and ns: "\<forall>c\<in>set tok. \<not> isspace c"
    by (simp_all add: plain_field_def)
  have "split_acc [] (tok @ 9 # path) = split_acc tok (9 # path)"
    using split_acc_token [OF ns, of "[]" "9 # path"] by simp
  also have "\<dots> = tok # split_acc [] path"
    using ne isspace_tab by simp
  also have "split_acc [] path = [path]"
    using str_split_plain [OF assms(2)] by (simp add: str_split_def)
  finally show ?thesis by (simp add: str_split_def)
qed

lemma str_split_line3:
  assumes "plain_field tok" "plain_field old" "plain_field new"
  shows "str_split (tab_line [tok, old, new]) = [tok, old, new]"
proof -
  from assms have "tok \<noteq> []" "\<forall>c\<in>set tok. \<not> isspace c" "old \<noteq> []" "\<forall>c\<in>set old. \<not> isspace c"
    by (simp_all add: plain_field_def)
  then have "str_split (tok @ 9 # old @ 9 # new) = tok # old # str_split new"
    using isspace_tab by (intro str_split_two) auto
  with str_split_plain [OF assms(3)] show ?thesis by simp
qed

lemma str_split_line:
  "list_all plain_field fs \<Longrightarrow> str_split (tab_line fs) = fs"
proof (induction fs rule: tab_line.induct)
  case 1
  show ?case by (simp add: str_split_def)
next
  case (2 f)
  then show ?case by (simp add: str_split_plain)
next
  case (3 f f' fs)
  from "3.prems" have ne: "f \<noteq> []" and ns: "\<forall>c\<in>set f. \<not> isspace c"
    by (simp_all add: plain_field_def)
  from "3.prems" have "list_all plain_field (f' # fs)"
    by simp
  then have rest: "split_acc [] (tab_line (f' # fs)) = f' # fs"
    using "3.IH" by (simp add: str_split_def)
  have "split_acc [] (f @ 9 # tab_line (f' # fs)) = split_acc f (9 # tab_line (f' # fs))"
    using split_acc_token [OF ns, of "[]" "9 # tab_line (f' # fs)"] by simp
  also have "\<dots> = f # split_acc [] (tab_line (f' # fs))"
    using ne isspace_tab by simp
  finally show ?case
    using rest by (simp add: str_split_def)
qed

lemma fields_acc_field:
  "\<forall>c\<in>set f. c \<noteq> 9 \<Longrightarrow> fields_acc acc (f @ rest) = fields_acc (acc @ f) rest"
  by (induction f arbitrary: acc) auto

lemma plain_field_no_tab: "plain_field f \<Longrightarrow> \<forall>c\<in>set f. c \<noteq> 9"
  using isspace_tab by (auto simp: plain_field_def)

lemma primary_path_line:
  assumes "plain_field tok" "plain_field path"
  shows "primary_path (tab_line (tok # path # others)) = Some path"
proof -
  have first: "fields_acc [] (tok @ 9 # rest) = tok # fields_acc [] rest" for rest
    using fields_acc_field [OF plain_field_no_tab [OF assms(1)], of "[]" "9 # rest"] by simp
  have second: "\<exists>fs. fields_acc [] (tab_line (path # others)) = path # fs"
  proof (cases others)
    case Nil
    then show ?thesis
      using fields_acc_field [OF plain_field_no_tab [OF assms(2)], of "[]" "[]"] by simp
  next
    case (Cons f fs)
    then show ?thesis
      using fields_acc_field [OF plain_field_no_tab [OF assms(2)], of "[]" "9 # tab_line (f # fs)"]
      by simp
  qed
  then obtain fs where "fields_acc [] (tab_line (path # others)) = path # fs" ..
  with first [of "tab_line (path # others)"] show ?thesis
    by (simp add: primary_path_def tab_fields_def)
qed

lemma git_exists_object: "git_exists run r p = object_exists run r p"
  by (simp add: git_exists_def object_exists_def call_def)

lemma counterpart_exists_line:
  assumes "plain_field tok" "plain_field path"
  shows "counterpart_exists run r s t (tab_line (tok # path # others)) =
         git_exists run r (str_replace path s t)"
  unfolding counterpart_exists_def
  by (simp only: primary_path_line [OF assms] option.case git_exists_object)

text \<open>The status tokens of the source are plain and differ from each other.\<close>

lemma status_tokens:
  "plain_field (lit ''D'')" "plain_field (lit ''M'')"
  "lit ''D'' \<noteq> lit ''M''" "\<not> startswith (lit ''D'') (lit ''R'')" "\<not> startswith (lit ''M'') (lit ''R'')"
  by (simp_all add: plain_field_def lit_def isspace_def startswith_def)

section \<open>Lemmas on the report\<close>

lemma map_of_dict:
  "map_of (map (\<lambda>(k, v). (k, JStr v)) d) a = map_option JStr (map_of d a)"
  by (induction d) auto

lemma output_field:
  "render_node ((x, dict_val d) # ctx) (Output (Getattr (Name x) a)) = Inr (printed d a)"
  by (simp add: dict_val_def map_of_dict printed_def split: option.split)

lemma loop_modified:
  "render_loop ctx ''m_file''
     [TemplateData (lit ''1. [ ] ''), Output (Getattr (Name ''m_file'') ''filepath''),
      TemplateData (lit '' ''), Output (Getattr (Name ''m_file'') ''shortstat''),
      TemplateData (lit ''\<newline>'')]
     (map dict_val ms)
   = Inr (concat (map (\<lambda>m. lit ''1. [ ] '' @ printed m ''filepath'' @ lit '' ''
                          @ printed m ''shortstat'' @ lit ''\<newline>'') ms))"
  by (induction ms) (simp_all add: output_field del: render_node.simps(2))

lemma loop_renamed:
  "render_loop ctx ''r_file''
     [TemplateData (lit ''1. [ ] ''), Output (Getattr (Name ''r_file'') ''diff_status_letter''),
      TemplateData (lit '' ''), Output (Getattr (Name ''r_file'') ''src_filepath''),
      TemplateData (lit '' -> ''), Output (Getattr (Name ''r_file'') ''dest_filepath''),
      TemplateData (lit ''\<newline>'')]
     (map dict_val rs)
   = Inr (concat (map (\<lambda>d. lit ''1. [ ] '' @ printed d ''diff_status_letter'' @ lit '' ''
                          @ printed d ''src_filepath'' @ lit '' -> '' @ printed d ''dest_filepath''
                          @ lit ''\<newline>'') rs))"
  by (induction rs) (simp_all add: output_field del: render_node.simps(2))

lemma loop_deleted:
  "render_loop ctx ''d_file''
     [TemplateData (lit ''1. [ ] ''), Output (Name ''d_file''), TemplateData (lit ''\<newline>'')]
     (map JStr ds)
   = Inr (concat (map (\<lambda>d. lit ''1. [ ] '' @ d @ lit ''\<newline>'') ds))"
  by (induction ds) simp_all

text \<open>Rendering never fails, and the report is the checklists, the header, the body and the last section.\<close>

lemma render_report:
  "render l r s t g =
     Inr (checklists r g @ lit ''\<newline>\<newline>## Proposed Solution\<newline>\<newline>''
          @ solution_body l r s t (files_to_be_modified g)
          @ lit ''\<newline>\<newline>## Pages to Update\<newline>'')"
proof (cases "files_to_be_modified g")
  case Nil
  then show ?thesis
    unfolding render_def ISSUE_TEMPLATE_def checklists_def solution_body_def
    by (simp add: loop_renamed loop_deleted del: str_of_nat.simps)
next
  case (Cons m ms)
  have first: "map_of (map (\<lambda>(k, v). (k, JStr v)) m) ''filepath'' = map_option JStr (map_of m ''filepath'')"
    by (rule map_of_dict)
  from Cons show ?thesis
    unfolding render_def ISSUE_TEMPLATE_def checklists_def solution_body_def
    using loop_modified [of _ "m # ms"]
    by (simp add: loop_renamed loop_deleted dict_val_def first printed_def
             del: str_of_nat.simps split: option.split)
qed

section \<open>The report\<close>

text \<open>
  C8. For every pair of revisions, pair of paths and every three lists, rendering
  succeeds and the report is, in this order: the title and the line naming the newer
  revision; the count of modified files and one checklist line per entry (path and
  summary); the count of renamed files and one line per entry (status token, old path,
  \<open>->\<close>, new path); the count of deleted files and one line per path; the header of
  the proposed solution, with the worked example under it when the list of modified
  files is not empty; and the empty section \<open>Pages to Update\<close>. The lines of each
  checklist stand in the order of the list.
\<close>

theorem report_layout:
  "render l r s t g =
     Inr (lit ''# This is a Bug Report\<newline>## Problem\<newline>Outdated files in the '' @ r
          @ lit '' branch.\<newline>\<newline>### '' @ str_of_nat (length (files_to_be_modified g))
          @ lit '' files to be modified \<newline>''
          @ concat (map (\<lambda>m. lit ''1. [ ] '' @ printed m ''filepath'' @ lit '' ''
                           @ printed m ''shortstat'' @ lit ''\<newline>'') (files_to_be_modified g))
          @ lit ''\<newline>\<newline>### '' @ str_of_nat (length (files_to_be_renamed g))
          @ lit '' files to be renamed  \<newline>''
          @ concat (map (\<lambda>d. lit ''1. [ ] '' @ printed d ''diff_status_letter'' @ lit '' ''
                           @ printed d ''src_filepath'' @ lit '' -> '' @ printed d ''dest_filepath''
                           @ lit ''\<newline>'') (files_to_be_renamed g))
          @ lit ''\<newline>\<newline>### '' @ str_of_nat (length (files_to_be_deleted g))
          @ lit '' files to be deleted \<newline>''
          @ concat (map (\<lambda>d. lit ''1. [ ] '' @ d @ lit ''\<newline>'') (files_to_be_deleted g))
          @ lit ''\<newline>\<newline>## Proposed Solution\<newline>\<newline>''
          @ (case files_to_be_modified g of
               [] \<Rightarrow> []
             | m # ms \<Rightarrow>
                 lit ''\<newline>\<newline>Use `git diff` to check what is changed in the upstream. And apply the upstream changes manually \<newline>to the `''
                 @ t @ lit ''` of `'' @ r
                 @ lit ''` branch.\<newline>\<newline>For example:\<newline>```\<newline># checkout `'' @ r
                 @ lit ''`\<newline>...\<newline># check what is updated in the upstream \<newline>git diff ''
                 @ l @ lit '' '' @ r @ lit '' -- '' @ printed m ''filepath''
                 @ lit ''\<newline># apply changes to content/ko\<newline>vi ''
                 @ str_replace (printed m ''filepath'') s t
                 @ lit ''\<newline>...\<newline># commit and push\<newline>...\<newline># make PR to `'' @ r
                 @ lit ''`\<newline>```\<newline>\<newline>'')
          @ lit ''\<newline>\<newline>## Pages to Update\<newline>'')"
  by (simp add: render_report checklists_def solution_body_def del: str_of_nat.simps
           split: list.split)

text \<open>
  C1, as the template has it. The header \<open>## Proposed Solution\<close> is part of every
  report. When the list of modified files is empty nothing stands under it; when the
  list is not empty the text under it has the line \<open>git diff l r -- path\<close> for the
  path of the first modified file and, further down, the line \<open>vi path'\<close> where
  \<open>path'\<close> is that path with the source path replaced by the target path.
\<close>

theorem proposed_solution_section:
  "\<exists>before body.
     render l r s t g = Inr (before @ lit ''\<newline>\<newline>## Proposed Solution\<newline>\<newline>'' @ body
                              @ lit ''\<newline>\<newline>## Pages to Update\<newline>'')
     \<and> (files_to_be_modified g = [] \<longrightarrow> body = [])
     \<and> (\<forall>m ms. files_to_be_modified g = m # ms \<longrightarrow>
           (\<exists>b1 b2 b3. body = b1 @ lit ''git diff '' @ l @ lit '' '' @ r @ lit '' -- ''
                                 @ printed m ''filepath'' @ lit ''\<newline>'' @ b2
                                 @ lit ''vi '' @ str_replace (printed m ''filepath'') s t
                                 @ lit ''\<newline>'' @ b3))"
proof (intro exI conjI allI impI)
  show "render l r s t g = Inr (checklists r g @ lit ''\<newline>\<newline>## Proposed Solution\<newline>\<newline>''
          @ solution_body l r s t (files_to_be_modified g)
          @ lit ''\<newline>\<newline>## Pages to Update\<newline>'')"
    by (rule render_report)
next
  assume "files_to_be_modified g = []"
  then show "solution_body l r s t (files_to_be_modified g) = []"
    by (simp add: solution_body_def)
next
  fix m ms
  assume "files_to_be_modified g = m # ms"
  then show "solution_body l r s t (files_to_be_modified g) =
      (lit ''\<newline>\<newline>Use `git diff` to check what is changed in the upstream. And apply the upstream changes manually \<newline>to the `''
          @ t @ lit ''` of `'' @ r
          @ lit ''` branch.\<newline>\<newline>For example:\<newline>```\<newline># checkout `'' @ r
          @ lit ''`\<newline>...\<newline># check what is updated in the upstream \<newline>'')
      @ lit ''git diff '' @ l @ lit '' '' @ r @ lit '' -- '' @ printed m ''filepath'' @ lit ''\<newline>''
      @ lit ''# apply changes to content/ko\<newline>''
      @ lit ''vi '' @ str_replace (printed m ''filepath'') s t @ lit ''\<newline>''
      @ (lit ''...\<newline># commit and push\<newline>...\<newline># make PR to `'' @ r
         @ lit ''`\<newline>```\<newline>\<newline>'')"
    by (simp add: solution_body_def lit_def)
qed

text \<open>
  C1 as stated fails: with three empty lists the report still has the header
  \<open>## Proposed Solution\<close>.
\<close>

theorem proposed_solution_header_always_rendered:
  "(case render (lit ''dev-1.15-ko.3'') (lit ''dev-1.15-ko.4'') (lit ''content/en'') (lit ''content/ko'')
           initial_globals of
      Inl e \<Rightarrow> False
    | Inr report \<Rightarrow> str_contains report (lit ''## Proposed Solution''))"
  by code_simp

section \<open>The classification of one line\<close>

text \<open>
  C3, as the code has it, for a line whose fields are plain and whose localized
  counterpart exists. The token \<open>D\<close> appends the path to the deleted list. A token
  that starts with \<open>R\<close>, with the old and the new path after it, appends the token
  and the two paths to the renamed list. The token \<open>M\<close> runs \<open>git diff --shortstat\<close>
  and \<open>git diff\<close> for the path: when both exit with 0 and print valid UTF-8 the path
  and the two stripped texts are appended to the modified list, otherwise the error of
  the first that fails is raised and nothing is appended. Every other token, with
  one path or more after it, appends nothing and raises nothing. Lines whose fields
  are not plain are not spoken of.
\<close>

theorem dispatch_on_status_token:
  "(plain_field path \<and> counterpart_exists run r s t (tab_line [lit ''D'', path]) \<longrightarrow>
      process_lines run (tab_line [lit ''D'', path] # lines) l r s t g =
        process_lines run lines l r s t
          (g\<lparr>files_to_be_deleted := files_to_be_deleted g @ [path]\<rparr>))
   \<and> (plain_field tok \<and> startswith tok (lit ''R'') \<and> plain_field path \<and> plain_field new
        \<and> counterpart_exists run r s t (tab_line [tok, path, new]) \<longrightarrow>
      process_lines run (tab_line [tok, path, new] # lines) l r s t g =
        process_lines run lines l r s t
          (g\<lparr>files_to_be_renamed := files_to_be_renamed g @
               [[(''diff_status_letter'', tok), (''src_filepath'', path), (''dest_filepath'', new)]]\<rparr>))
   \<and> (plain_field path \<and> counterpart_exists run r s t (tab_line [lit ''M'', path]) \<longrightarrow>
      process_lines run (tab_line [lit ''M'', path] # lines) l r s t g =
        (case run [lit ''git'', lit ''diff'', l, r, lit ''--shortstat'', lit ''--'', path] of
           (code1, out1) \<Rightarrow>
             if code1 \<noteq> 0
             then (Inl (CalledProcessError code1
                          [lit ''git'', lit ''diff'', l, r, lit ''--shortstat'', lit ''--'', path]), g)
             else
               (case decode out1 of
                  Inl e \<Rightarrow> (Inl e, g)
                | Inr text1 \<Rightarrow>
                    (case run [lit ''git'', lit ''diff'', l, r, lit ''--'', path] of
                       (code2, out2) \<Rightarrow>
                         if code2 \<noteq> 0
                         then (Inl (CalledProcessError code2
                                      [lit ''git'', lit ''diff'', l, r, lit ''--'', path]), g)
                         else
                           (case decode out2 of
                              Inl e \<Rightarrow> (Inl e, g)
                            | Inr text2 \<Rightarrow>
                                process_lines run lines l r s t
                                  (g\<lparr>files_to_be_modified := files_to_be_modified g @
                                       [[(''filepath'', path), (''shortstat'', str_strip text1),
                                         (''diff'', str_strip text2)]]\<rparr>))))))
   \<and> (plain_field tok \<and> tok \<noteq> lit ''D'' \<and> \<not> startswith tok (lit ''R'') \<and> tok \<noteq> lit ''M''
        \<and> plain_field path \<and> list_all plain_field others
        \<and> counterpart_exists run r s t (tab_line (tok # path # others)) \<longrightarrow>
      process_lines run (tab_line (tok # path # others) # lines) l r s t g =
        process_lines run lines l r s t g)"
proof (intro conjI impI)
  assume a: "plain_field path \<and> counterpart_exists run r s t (tab_line [lit ''D'', path])"
  then have ex: "git_exists run r (str_replace path s t)"
    using counterpart_exists_line [OF status_tokens(1), of path run r s t "[]"] by simp
  have sp: "str_split (tab_line [lit ''D'', path]) = [lit ''D'', path]"
    using a by (simp only: str_split_line2 [OF status_tokens(1)])
  show "process_lines run (tab_line [lit ''D'', path] # lines) l r s t g =
        process_lines run lines l r s t
          (g\<lparr>files_to_be_deleted := files_to_be_deleted g @ [path]\<rparr>)"
    by (simp only: process_lines.simps Let_def sp) (simp add: process_diff_status_def ex)
next
  assume a: "plain_field tok \<and> startswith tok (lit ''R'') \<and> plain_field path \<and> plain_field new
        \<and> counterpart_exists run r s t (tab_line [tok, path, new])"
  then have ex: "git_exists run r (str_replace path s t)"
    using counterpart_exists_line [of tok path run r s t "[new]"] by simp
  have sp: "str_split (tab_line [tok, path, new]) = [tok, path, new]"
    using a by (simp only: str_split_line3)
  from a have nd: "tok \<noteq> lit ''D''"
    using status_tokens(4) by auto
  show "process_lines run (tab_line [tok, path, new] # lines) l r s t g =
        process_lines run lines l r s t
          (g\<lparr>files_to_be_renamed := files_to_be_renamed g @
               [[(''diff_status_letter'', tok), (''src_filepath'', path), (''dest_filepath'', new)]]\<rparr>)"
    using a nd
    by (simp only: process_lines.simps Let_def sp) (simp add: process_diff_status_def ex)
next
  assume a: "plain_field path \<and> counterpart_exists run r s t (tab_line [lit ''M'', path])"
  then have ex: "git_exists run r (str_replace path s t)"
    using counterpart_exists_line [OF status_tokens(2), of path run r s t "[]"] by simp
  have sp: "str_split (tab_line [lit ''M'', path]) = [lit ''M'', path]"
    using a by (simp only: str_split_line2 [OF status_tokens(2)])
  have "process_lines run (tab_line [lit ''M'', path] # lines) l r s t g =
        (case git_diff run path l r True of
           Inl e \<Rightarrow> (Inl e, g)
         | Inr short \<Rightarrow>
             (case git_diff run path l r False of
                Inl e \<Rightarrow> (Inl e, g)
              | Inr full \<Rightarrow>
                  process_lines run lines l r s t
                    (g\<lparr>files_to_be_modified := files_to_be_modified g @
                         [[(''filepath'', path), (''shortstat'', short), (''diff'', full)]]\<rparr>)))"
    using status_tokens(3,5)
    by (simp only: process_lines.simps Let_def sp)
       (simp add: process_diff_status_def ex split: sum.split)
  then show "process_lines run (tab_line [lit ''M'', path] # lines) l r s t g =
        (case run [lit ''git'', lit ''diff'', l, r, lit ''--shortstat'', lit ''--'', path] of
           (code1, out1) \<Rightarrow>
             if code1 \<noteq> 0
             then (Inl (CalledProcessError code1
                          [lit ''git'', lit ''diff'', l, r, lit ''--shortstat'', lit ''--'', path]), g)
             else
               (case decode out1 of
                  Inl e \<Rightarrow> (Inl e, g)
                | Inr text1 \<Rightarrow>
                    (case run [lit ''git'', lit ''diff'', l, r, lit ''--'', path] of
                       (code2, out2) \<Rightarrow>
                         if code2 \<noteq> 0
                         then (Inl (CalledProcessError code2
                                      [lit ''git'', lit ''diff'', l, r, lit ''--'', path]), g)
                         else
                           (case decode out2 of
                              Inl e \<Rightarrow> (Inl e, g)
                            | Inr text2 \<Rightarrow>
                                process_lines run lines l r s t
                                  (g\<lparr>files_to_be_modified := files_to_be_modified g @
                                       [[(''filepath'', path), (''shortstat'', str_strip text1),
                                         (''diff'', str_strip text2)]]\<rparr>)))))"
    by (simp add: git_diff_def check_output_def split: prod.split sum.split)
next
  assume a: "plain_field tok \<and> tok \<noteq> lit ''D'' \<and> \<not> startswith tok (lit ''R'') \<and> tok \<noteq> lit ''M''
        \<and> plain_field path \<and> list_all plain_field others
        \<and> counterpart_exists run r s t (tab_line (tok # path # others))"
  then have ex: "git_exists run r (str_replace path s t)"
    using counterpart_exists_line [of tok path run r s t others] by simp
  from a have "list_all plain_field (tok # path # others)"
    by simp
  then have sp: "str_split (tab_line (tok # path # others)) = tok # path # others"
    by (rule str_split_line)
  show "process_lines run (tab_line (tok # path # others) # lines) l r s t g =
        process_lines run lines l r s t g"
    using a
    by (simp only: process_lines.simps Let_def sp) (simp add: process_diff_status_def ex)
qed

text \<open>
  C3 as stated fails for a line with the token \<open>M\<close> whose localized counterpart
  exists when git cannot produce the diff of the file: the error ends the pass and the
  modified list gets no entry.
\<close>

theorem modified_line_raises:
  "status_lines unreadable_run (lit ''dev-1.15-ko.3'') (lit ''dev-1.15-ko.4'') (lit ''content/en'')
     = Inr [tab_line [lit ''M'', lit ''content/en/docs/a.md'']]
   \<and> counterpart_exists unreadable_run (lit ''dev-1.15-ko.4'') (lit ''content/en'') (lit ''content/ko'')
       (tab_line [lit ''M'', lit ''content/en/docs/a.md''])
   \<and> git_diff_name_status unreadable_run (lit ''dev-1.15-ko.3'') (lit ''dev-1.15-ko.4'')
       (lit ''content/en'') (lit ''content/ko'') initial_globals
     = (Inl (CalledProcessError 128
              (map lit [''git'', ''diff'', ''dev-1.15-ko.3'', ''dev-1.15-ko.4'', ''--shortstat'',
                        ''--'', ''content/en/docs/a.md''])),
        initial_globals)"
  by code_simp

text \<open>
  A line with plain fields whose localized counterpart does not exist is dropped: it
  raises nothing and leaves the three lists as they are.
\<close>

lemma plain_line_without_counterpart:
  assumes "plain_field tok" "plain_field path" "list_all plain_field others"
    and "\<not> counterpart_exists run r s t (tab_line (tok # path # others))"
  shows "process_lines run (tab_line (tok # path # others) # lines) l r s t g =
         process_lines run lines l r s t g"
proof -
  from assms have ex: "\<not> git_exists run r (str_replace path s t)"
    using counterpart_exists_line [of tok path run r s t others] by simp
  from assms have "list_all plain_field (tok # path # others)"
    by simp
  then have sp: "str_split (tab_line (tok # path # others)) = tok # path # others"
    by (rule str_split_line)
  show ?thesis
    by (simp only: process_lines.simps Let_def sp) (simp add: process_diff_status_def ex)
qed

section \<open>Paths with a space\<close>

text \<open>
  The lines are split at every whitespace character, not at the TAB that git puts
  between the fields, so a path with a space is cut at the space. The four theorems
  of this section run the classifier on such repositories.
\<close>

text \<open>
  C2 fails on the code. Two modified files, \<open>content/en/a b.md\<close> and
  \<open>content/en/a c.md\<close>, have no localized counterpart at the newer revision, and
  the modified list gets an entry for each of the two lines, because the object
  \<open>content/ko/a\<close> exists.
\<close>

theorem entries_without_counterpart:
  "status_lines spaces_run (lit ''L'') (lit ''R'') (lit ''content/en'')
     = Inr [tab_line [lit ''M'', lit ''content/en/a b.md''],
            tab_line [lit ''M'', lit ''content/en/a c.md'']]
   \<and> \<not> counterpart_exists spaces_run (lit ''R'') (lit ''content/en'') (lit ''content/ko'')
         (tab_line [lit ''M'', lit ''content/en/a b.md''])
   \<and> \<not> counterpart_exists spaces_run (lit ''R'') (lit ''content/en'') (lit ''content/ko'')
         (tab_line [lit ''M'', lit ''content/en/a c.md''])
   \<and> git_diff_name_status spaces_run (lit ''L'') (lit ''R'') (lit ''content/en'') (lit ''content/ko'')
       initial_globals
     = (Inr (),
        \<lparr>files_to_be_deleted = [], files_to_be_renamed = [],
         files_to_be_modified =
           [[(''filepath'', lit ''content/en/a''), (''shortstat'', []), (''diff'', [])],
            [(''filepath'', lit ''content/en/a''), (''shortstat'', []), (''diff'', [])]]\<rparr>)"
  by code_simp

text \<open>
  C4 fails on the code. The file \<open>content/en/a b.md\<close> was renamed to
  \<open>content/en/c.md\<close>. When its localized counterpart \<open>content/ko/a b.md\<close> exists
  nothing is appended to the renamed list. When instead the object \<open>content/ko/a\<close>
  exists an entry is appended, with the old path \<open>content/en/a\<close> and the new path
  \<open>b.md\<close>.
\<close>

theorem rename_with_space_misread:
  "status_lines (renamed_spaced_run [lit ''R:content/ko/a b.md'']) (lit ''L'') (lit ''R'')
       (lit ''content/en'')
     = Inr [tab_line [lit ''R100'', lit ''content/en/a b.md'', lit ''content/en/c.md'']]
   \<and> counterpart_exists (renamed_spaced_run [lit ''R:content/ko/a b.md'']) (lit ''R'')
       (lit ''content/en'') (lit ''content/ko'')
       (tab_line [lit ''R100'', lit ''content/en/a b.md'', lit ''content/en/c.md''])
   \<and> git_diff_name_status (renamed_spaced_run [lit ''R:content/ko/a b.md'']) (lit ''L'') (lit ''R'')
       (lit ''content/en'') (lit ''content/ko'') initial_globals
     = (Inr (), initial_globals)
   \<and> \<not> counterpart_exists (renamed_spaced_run [lit ''R:content/ko/a'']) (lit ''R'')
         (lit ''content/en'') (lit ''content/ko'')
         (tab_line [lit ''R100'', lit ''content/en/a b.md'', lit ''content/en/c.md''])
   \<and> git_diff_name_status (renamed_spaced_run [lit ''R:content/ko/a'']) (lit ''L'') (lit ''R'')
       (lit ''content/en'') (lit ''content/ko'') initial_globals
     = (Inr (),
        \<lparr>files_to_be_deleted = [],
         files_to_be_renamed = [[(''diff_status_letter'', lit ''R100''),
                                 (''src_filepath'', lit ''content/en/a''),
                                 (''dest_filepath'', lit ''b.md'')]],
         files_to_be_modified = []\<rparr>)"
  by code_simp

text \<open>
  C6 fails on the code. The file \<open>content/en/a b.md\<close> was modified and its
  localized counterpart \<open>content/ko/a b.md\<close> exists at the newer revision, and the
  modified list stays empty.
\<close>

theorem modified_with_space_missing:
  "status_lines (spaced_run [lit ''R:content/ko/a b.md'']) (lit ''L'') (lit ''R'') (lit ''content/en'')
     = Inr [tab_line [lit ''M'', lit ''content/en/a b.md'']]
   \<and> counterpart_exists (spaced_run [lit ''R:content/ko/a b.md'']) (lit ''R'')
       (lit ''content/en'') (lit ''content/ko'') (tab_line [lit ''M'', lit ''content/en/a b.md''])
   \<and> git_diff_name_status (spaced_run [lit ''R:content/ko/a b.md'']) (lit ''L'') (lit ''R'')
       (lit ''content/en'') (lit ''content/ko'') initial_globals
     = (Inr (), initial_globals)"
  by code_simp

text \<open>
  C7 fails on the code. For the modified file \<open>content/en/a b.md\<close> the existence
  check is not made on \<open>content/ko/a b.md\<close>, the primary path with the source path
  replaced, but on \<open>content/ko/a\<close>: the line is kept exactly when the latter exists,
  whether the former exists or not.
\<close>

theorem existence_check_on_cut_path:
  "primary_path (tab_line [lit ''M'', lit ''content/en/a b.md'']) = Some (lit ''content/en/a b.md'')
   \<and> str_replace (lit ''content/en/a b.md'') (lit ''content/en'') (lit ''content/ko'')
       = lit ''content/ko/a b.md''
   \<and> git_diff_name_status (spaced_run []) (lit ''L'') (lit ''R'')
       (lit ''content/en'') (lit ''content/ko'') initial_globals
     = (Inr (), initial_globals)
   \<and> git_diff_name_status (spaced_run [lit ''R:content/ko/a b.md'']) (lit ''L'') (lit ''R'')
       (lit ''content/en'') (lit ''content/ko'') initial_globals
     = (Inr (), initial_globals)
   \<and> git_diff_name_status (spaced_run [lit ''R:content/ko/a'']) (lit ''L'') (lit ''R'')
       (lit ''content/en'') (lit ''content/ko'') initial_globals
     = (Inr (),
        \<lparr>files_to_be_deleted = [], files_to_be_renamed = [],
         files_to_be_modified =
           [[(''filepath'', lit ''content/en/a''), (''shortstat'', []), (''diff'', [])]]\<rparr>)
   \<and> git_diff_name_status (spaced_run [lit ''R:content/ko/a b.md'', lit ''R:content/ko/a''])
       (lit ''L'') (lit ''R'') (lit ''content/en'') (lit ''content/ko'') initial_globals
     = (Inr (),
        \<lparr>files_to_be_deleted = [], files_to_be_renamed = [],
         files_to_be_modified =
           [[(''filepath'', lit ''content/en/a''), (''shortstat'', []), (''diff'', [])]]\<rparr>)"
  by code_simp

section \<open>The classification pass\<close>

text \<open>
  C5. When the name-status command succeeds and prints nothing (or whitespace only),
  the pass ends without an error and the three lists are empty.
\<close>

theorem no_changes_empty_lists:
  assumes "run [lit ''git'', lit ''diff'', l, r, lit ''--name-status'', lit ''--'', s] = (0, out)"
    and "bytes_strip out = []"
  shows "git_diff_name_status run l r s t initial_globals = (Inr (), initial_globals)"
  using assms
  by (simp add: git_diff_name_status_def check_output_def splitlines_def decode_def)

text \<open>
  C9, as the code has it. A line with fewer than two tokens raises \<open>IndexError\<close>,
  which ends the pass. A line with exactly two tokens whose first starts with \<open>R\<close>
  raises \<open>IndexError\<close> when the localized path exists, and is dropped without an
  error when it does not. The tokens are the runs between whitespace, so the path of a
  line is cut at its first whitespace character.
\<close>

theorem index_error_and_truncation:
  "(length (str_split line) < 2 \<longrightarrow>
      process_lines run (line # lines) l r s t g = (Inl IndexError, g))
   \<and> (str_split line = [status_letter, filepath] \<and> startswith status_letter (lit ''R'') \<longrightarrow>
        process_lines run (line # lines) l r s t g =
          (if git_exists run r (str_replace filepath s t) then (Inl IndexError, g)
           else process_lines run lines l r s t g))
   \<and> (tok \<noteq> [] \<and> (\<forall>c\<in>set tok. \<not> isspace c) \<and> isspace w1
        \<and> p \<noteq> [] \<and> (\<forall>c\<in>set p. \<not> isspace c) \<and> isspace w2 \<longrightarrow>
        str_split (tok @ w1 # p @ w2 # rest) = tok # p # str_split rest)"
proof (intro conjI impI)
  assume "length (str_split line) < 2"
  then consider "str_split line = []" | x where "str_split line = [x]"
    by (cases "str_split line"; cases "tl (str_split line)") auto
  then show "process_lines run (line # lines) l r s t g = (Inl IndexError, g)"
    by cases (simp_all add: process_diff_status_def)
next
  assume a: "str_split line = [status_letter, filepath] \<and> startswith status_letter (lit ''R'')"
  then have "status_letter \<noteq> lit ''D''"
    using status_tokens(4) by auto
  with a show "process_lines run (line # lines) l r s t g =
          (if git_exists run r (str_replace filepath s t) then (Inl IndexError, g)
           else process_lines run lines l r s t g)"
    by (auto simp: process_diff_status_def)
next
  assume "tok \<noteq> [] \<and> (\<forall>c\<in>set tok. \<not> isspace c) \<and> isspace w1
        \<and> p \<noteq> [] \<and> (\<forall>c\<in>set p. \<not> isspace c) \<and> isspace w2"
  then show "str_split (tok @ w1 # p @ w2 # rest) = tok # p # str_split rest"
    by (simp add: str_split_two)
qed

text \<open>
  C9 as stated fails for a rename line with two tokens whose localized path does not
  exist: no error is raised.
\<close>

theorem rename_line_two_tokens_dropped:
  "process_diff_status (\<lambda>cmd. (1, [])) [lit ''R100'', lit ''content/en/docs/c.md'']
     (lit ''dev-1.15-ko.3'') (lit ''dev-1.15-ko.4'') (lit ''content/en'') (lit ''content/ko'')
     initial_globals
   = (Inr (), initial_globals)"
  by code_simp

text \<open>
  C10. The lists are appended to and never reset: a second pass over the same
  repository, started with the lists the first pass left, ends with each list followed
  by a second copy of itself. The second pass gives the result of the first only when
  the first found nothing.
\<close>

theorem second_pass_appends:
  assumes "git_diff_name_status run l r s t initial_globals = (Inr (), g1)"
  shows "\<exists>g2. git_diff_name_status run l r s t g1 = (Inr (), g2)
          \<and> files_to_be_deleted g2 = files_to_be_deleted g1 @ files_to_be_deleted g1
          \<and> files_to_be_renamed g2 = files_to_be_renamed g1 @ files_to_be_renamed g1
          \<and> files_to_be_modified g2 = files_to_be_modified g1 @ files_to_be_modified g1
          \<and> (g2 = g1) = (g1 = initial_globals)"
proof -
  have "git_diff_name_status run l r s t g1 = (Inr (), appended g1 g1)"
    using git_diff_name_status_appended [of run l r s t g1] assms by simp
  moreover have "(appended g1 g1 = g1) = (g1 = initial_globals)"
    by (cases g1) (auto simp: appended_def initial_globals_def)
  ultimately show ?thesis by (simp add: appended_def)
qed

section \<open>The properties on the scenarios\<close>

text \<open>C8 on the scenario: the report for the lists of the scenario, character by character.\<close>

theorem report_layout_witness:
  "render (lit ''dev-1.15-ko.3'') (lit ''dev-1.15-ko.4'') (lit ''content/en'') (lit ''content/ko'')
     scenario_globals =
     Inr (lit ''# This is a Bug Report\<newline>## Problem\<newline>Outdated files in the dev-1.15-ko.4 branch.\<newline>\<newline>### 1 files to be modified \<newline>1. [ ] content/en/docs/a.md 1 file changed, 1 insertion(+), 1 deletion(-)\<newline>\<newline>\<newline>### 1 files to be renamed  \<newline>1. [ ] R100 content/en/docs/c.md -> content/en/docs/d.md\<newline>\<newline>\<newline>### 1 files to be deleted \<newline>1. [ ] content/en/docs/b.md\<newline>\<newline>\<newline>## Proposed Solution\<newline>\<newline>\<newline>\<newline>Use `git diff` to check what is changed in the upstream. And apply the upstream changes manually \<newline>to the `content/ko` of `dev-1.15-ko.4` branch.\<newline>\<newline>For example:\<newline>```\<newline># checkout `dev-1.15-ko.4`\<newline>...\<newline># check what is updated in the upstream \<newline>git diff dev-1.15-ko.3 dev-1.15-ko.4 -- content/en/docs/a.md\<newline># apply changes to content/ko\<newline>vi content/ko/docs/a.md\<newline>...\<newline># commit and push\<newline>...\<newline># make PR to `dev-1.15-ko.4`\<newline>```\<newline>\<newline>\<newline>\<newline>## Pages to Update\<newline>'')"
  by (subst report_layout) code_simp

text \<open>
  C1 on two reports: with empty lists nothing stands under the header, and the report
  of the scenario has the two command lines.
\<close>

theorem proposed_solution_section_witness:
  "(\<exists>before. render (lit ''dev-1.15-ko.4'') (lit ''dev-1.15-ko.4'') (lit ''content/en'')
                 (lit ''content/ko'') initial_globals =
       Inr (before @ lit ''\<newline>\<newline>## Proposed Solution\<newline>\<newline>''
            @ lit ''\<newline>\<newline>## Pages to Update\<newline>''))
   \<and> (\<exists>before b1 b2 b3.
         render (lit ''dev-1.15-ko.3'') (lit ''dev-1.15-ko.4'') (lit ''content/en'') (lit ''content/ko'')
           scenario_globals =
           Inr (before @ lit ''\<newline>\<newline>## Proposed Solution\<newline>\<newline>'' @ b1
                @ lit ''git diff '' @ lit ''dev-1.15-ko.3'' @ lit '' '' @ lit ''dev-1.15-ko.4''
                @ lit '' -- '' @ lit ''content/en/docs/a.md'' @ lit ''\<newline>'' @ b2
                @ lit ''vi '' @ lit ''content/ko/docs/a.md'' @ lit ''\<newline>'' @ b3
                @ lit ''\<newline>\<newline>## Pages to Update\<newline>''))"
proof
  have e: "files_to_be_modified initial_globals = []"
    by (simp add: initial_globals_def)
  from proposed_solution_section [of "lit ''dev-1.15-ko.4''" "lit ''dev-1.15-ko.4''"
         "lit ''content/en''" "lit ''content/ko''" initial_globals]
  obtain before body where
    "render (lit ''dev-1.15-ko.4'') (lit ''dev-1.15-ko.4'') (lit ''content/en'') (lit ''content/ko'')
       initial_globals =
       Inr (before @ lit ''\<newline>\<newline>## Proposed Solution\<newline>\<newline>'' @ body
            @ lit ''\<newline>\<newline>## Pages to Update\<newline>'')"
    and "files_to_be_modified initial_globals = [] \<longrightarrow> body = []"
    by blast
  with e have "render (lit ''dev-1.15-ko.4'') (lit ''dev-1.15-ko.4'') (lit ''content/en'')
                 (lit ''content/ko'') initial_globals =
       Inr (before @ lit ''\<newline>\<newline>## Proposed Solution\<newline>\<newline>''
            @ lit ''\<newline>\<newline>## Pages to Update\<newline>'')"
    by simp
  then show "\<exists>before. render (lit ''dev-1.15-ko.4'') (lit ''dev-1.15-ko.4'') (lit ''content/en'')
                 (lit ''content/ko'') initial_globals =
       Inr (before @ lit ''\<newline>\<newline>## Proposed Solution\<newline>\<newline>''
            @ lit ''\<newline>\<newline>## Pages to Update\<newline>'')"
    by blast
next
  let ?m = "[(''filepath'', lit ''content/en/docs/a.md''),
             (''shortstat'', lit ''1 file changed, 1 insertion(+), 1 deletion(-)''),
             (''diff'', lit ''@@ -1 +1 @@\<newline>-old\<newline>+new'')]"
  have m: "files_to_be_modified scenario_globals = ?m # []"
    by (simp add: scenario_globals_def)
  have pr: "printed ?m ''filepath'' = lit ''content/en/docs/a.md''"
    by (simp add: printed_def)
  have rp: "str_replace (lit ''content/en/docs/a.md'') (lit ''content/en'') (lit ''content/ko'')
              = lit ''content/ko/docs/a.md''"
    by code_simp
  from proposed_solution_section [of "lit ''dev-1.15-ko.3''" "lit ''dev-1.15-ko.4''"
         "lit ''content/en''" "lit ''content/ko''" scenario_globals]
  obtain before body where
    r: "render (lit ''dev-1.15-ko.3'') (lit ''dev-1.15-ko.4'') (lit ''content/en'') (lit ''content/ko'')
          scenario_globals =
       Inr (before @ lit ''\<newline>\<newline>## Proposed Solution\<newline>\<newline>'' @ body
            @ lit ''\<newline>\<newline>## Pages to Update\<newline>'')"
    and b: "\<forall>m ms. files_to_be_modified scenario_globals = m # ms \<longrightarrow>
           (\<exists>b1 b2 b3. body = b1 @ lit ''git diff '' @ lit ''dev-1.15-ko.3'' @ lit '' ''
                                 @ lit ''dev-1.15-ko.4'' @ lit '' -- ''
                                 @ printed m ''filepath'' @ lit ''\<newline>'' @ b2
                                 @ lit ''vi ''
                                 @ str_replace (printed m ''filepath'') (lit ''content/en'') (lit ''content/ko'')
                                 @ lit ''\<newline>'' @ b3)"
    by blast
  from b m obtain b1 b2 b3 where
    "body = b1 @ lit ''git diff '' @ lit ''dev-1.15-ko.3'' @ lit '' ''
                                 @ lit ''dev-1.15-ko.4'' @ lit '' -- ''
                                 @ printed ?m ''filepath'' @ lit ''\<newline>'' @ b2
                                 @ lit ''vi ''
                                 @ str_replace (printed ?m ''filepath'') (lit ''content/en'') (lit ''content/ko'')
                                 @ lit ''\<newline>'' @ b3"
    by blast
  then have "body = b1 @ lit ''git diff '' @ lit ''dev-1.15-ko.3'' @ lit '' ''
                                 @ lit ''dev-1.15-ko.4'' @ lit '' -- ''
                                 @ lit ''content/en/docs/a.md'' @ lit ''\<newline>'' @ b2
                                 @ lit ''vi '' @ lit ''content/ko/docs/a.md'' @ lit ''\<newline>'' @ b3"
    by (simp only: pr rp)
  with r have "render (lit ''dev-1.15-ko.3'') (lit ''dev-1.15-ko.4'') (lit ''content/en'') (lit ''content/ko'')
           scenario_globals =
           Inr (before @ lit ''\<newline>\<newline>## Proposed Solution\<newline>\<newline>'' @ b1
                @ lit ''git diff '' @ lit ''dev-1.15-ko.3'' @ lit '' '' @ lit ''dev-1.15-ko.4''
                @ lit '' -- '' @ lit ''content/en/docs/a.md'' @ lit ''\<newline>'' @ b2
                @ lit ''vi '' @ lit ''content/ko/docs/a.md'' @ lit ''\<newline>'' @ b3
                @ lit ''\<newline>\<newline>## Pages to Update\<newline>'')"
    by (simp only: append_assoc)
  then show "\<exists>before b1 b2 b3.
         render (lit ''dev-1.15-ko.3'') (lit ''dev-1.15-ko.4'') (lit ''content/en'') (lit ''content/ko'')
           scenario_globals =
           Inr (before @ lit ''\<newline>\<newline>## Proposed Solution\<newline>\<newline>'' @ b1
                @ lit ''git diff '' @ lit ''dev-1.15-ko.3'' @ lit '' '' @ lit ''dev-1.15-ko.4''
                @ lit '' -- '' @ lit ''content/en/docs/a.md'' @ lit ''\<newline>'' @ b2
                @ lit ''vi '' @ lit ''content/ko/docs/a.md'' @ lit ''\<newline>'' @ b3
                @ lit ''\<newline>\<newline>## Pages to Update\<newline>'')"
    by blast
qed

text \<open>
  C3 on the scenario: one line for each of the four cases, each followed by no other
  line.
\<close>

theorem dispatch_on_status_token_witness:
  "process_lines scenario_run [tab_line [lit ''D'', lit ''content/en/docs/b.md'']]
     (lit ''dev-1.15-ko.3'') (lit ''dev-1.15-ko.4'') (lit ''content/en'') (lit ''content/ko'')
     initial_globals
   = (Inr (), initial_globals\<lparr>files_to_be_deleted := [lit ''content/en/docs/b.md'']\<rparr>)
   \<and> process_lines scenario_run
       [tab_line [lit ''R100'', lit ''content/en/docs/c.md'', lit ''content/en/docs/d.md'']]
       (lit ''dev-1.15-ko.3'') (lit ''dev-1.15-ko.4'') (lit ''content/en'') (lit ''content/ko'')
       initial_globals
     = (Inr (), initial_globals\<lparr>files_to_be_renamed :=
          [[(''diff_status_letter'', lit ''R100''), (''src_filepath'', lit ''content/en/docs/c.md''),
            (''dest_filepath'', lit ''content/en/docs/d.md'')]]\<rparr>)
   \<and> process_lines scenario_run [tab_line [lit ''M'', lit ''content/en/docs/a.md'']]
       (lit ''dev-1.15-ko.3'') (lit ''dev-1.15-ko.4'') (lit ''content/en'') (lit ''content/ko'')
       initial_globals
     = (Inr (), initial_globals\<lparr>files_to_be_modified :=
          [[(''filepath'', lit ''content/en/docs/a.md''),
            (''shortstat'', lit ''1 file changed, 1 insertion(+), 1 deletion(-)''),
            (''diff'', lit ''@@ -1 +1 @@\<newline>-old\<newline>+new'')]]\<rparr>)
   \<and> process_lines scenario_run [tab_line [lit ''A'', lit ''content/en/docs/e.md'']]
       (lit ''dev-1.15-ko.3'') (lit ''dev-1.15-ko.4'') (lit ''content/en'') (lit ''content/ko'')
       initial_globals
     = (Inr (), initial_globals)"
proof (intro conjI)
  have h: "plain_field (lit ''content/en/docs/b.md'')
           \<and> counterpart_exists scenario_run (lit ''dev-1.15-ko.4'') (lit ''content/en'') (lit ''content/ko'')
               (tab_line [lit ''D'', lit ''content/en/docs/b.md''])"
    by code_simp
  from dispatch_on_status_token [where run = scenario_run and path = "lit ''content/en/docs/b.md''"
         and l = "lit ''dev-1.15-ko.3''" and r = "lit ''dev-1.15-ko.4''" and s = "lit ''content/en''"
         and t = "lit ''content/ko''" and lines = "[]" and g = initial_globals] h
  show "process_lines scenario_run [tab_line [lit ''D'', lit ''content/en/docs/b.md'']]
     (lit ''dev-1.15-ko.3'') (lit ''dev-1.15-ko.4'') (lit ''content/en'') (lit ''content/ko'')
     initial_globals
   = (Inr (), initial_globals\<lparr>files_to_be_deleted := [lit ''content/en/docs/b.md'']\<rparr>)"
    by (simp add: initial_globals_def del: tab_line.simps)
next
  have h: "plain_field (lit ''R100'') \<and> startswith (lit ''R100'') (lit ''R'')
           \<and> plain_field (lit ''content/en/docs/c.md'') \<and> plain_field (lit ''content/en/docs/d.md'')
           \<and> counterpart_exists scenario_run (lit ''dev-1.15-ko.4'') (lit ''content/en'') (lit ''content/ko'')
               (tab_line [lit ''R100'', lit ''content/en/docs/c.md'', lit ''content/en/docs/d.md''])"
    by code_simp
  from dispatch_on_status_token [where run = scenario_run and tok = "lit ''R100''"
         and path = "lit ''content/en/docs/c.md''" and new = "lit ''content/en/docs/d.md''"
         and l = "lit ''dev-1.15-ko.3''" and r = "lit ''dev-1.15-ko.4''" and s = "lit ''content/en''"
         and t = "lit ''content/ko''" and lines = "[]" and g = initial_globals] h
  show "process_lines scenario_run
       [tab_line [lit ''R100'', lit ''content/en/docs/c.md'', lit ''content/en/docs/d.md'']]
       (lit ''dev-1.15-ko.3'') (lit ''dev-1.15-ko.4'') (lit ''content/en'') (lit ''content/ko'')
       initial_globals
     = (Inr (), initial_globals\<lparr>files_to_be_renamed :=
          [[(''diff_status_letter'', lit ''R100''), (''src_filepath'', lit ''content/en/docs/c.md''),
            (''dest_filepath'', lit ''content/en/docs/d.md'')]]\<rparr>)"
    by (simp add: initial_globals_def del: tab_line.simps)
next
  have h: "plain_field (lit ''content/en/docs/a.md'')
           \<and> counterpart_exists scenario_run (lit ''dev-1.15-ko.4'') (lit ''content/en'') (lit ''content/ko'')
               (tab_line [lit ''M'', lit ''content/en/docs/a.md''])"
    by code_simp
  have short: "scenario_run [lit ''git'', lit ''diff'', lit ''dev-1.15-ko.3'', lit ''dev-1.15-ko.4'',
                             lit ''--shortstat'', lit ''--'', lit ''content/en/docs/a.md'']
               = (0, '' 1 file changed, 1 insertion(+), 1 deletion(-)\<newline>'')
               \<and> decode '' 1 file changed, 1 insertion(+), 1 deletion(-)\<newline>''
                   = Inr (lit '' 1 file changed, 1 insertion(+), 1 deletion(-)\<newline>'')
               \<and> str_strip (lit '' 1 file changed, 1 insertion(+), 1 deletion(-)\<newline>'')
                   = lit ''1 file changed, 1 insertion(+), 1 deletion(-)''"
    by code_simp
  have full: "scenario_run [lit ''git'', lit ''diff'', lit ''dev-1.15-ko.3'', lit ''dev-1.15-ko.4'',
                            lit ''--'', lit ''content/en/docs/a.md'']
               = (0, ''@@ -1 +1 @@\<newline>-old\<newline>+new\<newline>'')
               \<and> decode ''@@ -1 +1 @@\<newline>-old\<newline>+new\<newline>''
                   = Inr (lit ''@@ -1 +1 @@\<newline>-old\<newline>+new\<newline>'')
               \<and> str_strip (lit ''@@ -1 +1 @@\<newline>-old\<newline>+new\<newline>'')
                   = lit ''@@ -1 +1 @@\<newline>-old\<newline>+new''"
    by code_simp
  from dispatch_on_status_token [where run = scenario_run and path = "lit ''content/en/docs/a.md''"
         and l = "lit ''dev-1.15-ko.3''" and r = "lit ''dev-1.15-ko.4''" and s = "lit ''content/en''"
         and t = "lit ''content/ko''" and lines = "[]" and g = initial_globals] h
  show "process_lines scenario_run [tab_line [lit ''M'', lit ''content/en/docs/a.md'']]
       (lit ''dev-1.15-ko.3'') (lit ''dev-1.15-ko.4'') (lit ''content/en'') (lit ''content/ko'')
       initial_globals
     = (Inr (), initial_globals\<lparr>files_to_be_modified :=
          [[(''filepath'', lit ''content/en/docs/a.md''),
            (''shortstat'', lit ''1 file changed, 1 insertion(+), 1 deletion(-)''),
            (''diff'', lit ''@@ -1 +1 @@\<newline>-old\<newline>+new'')]]\<rparr>)"
    by (simp add: initial_globals_def short full del: tab_line.simps)
next
  have h: "plain_field (lit ''A'') \<and> lit ''A'' \<noteq> lit ''D'' \<and> \<not> startswith (lit ''A'') (lit ''R'')
           \<and> lit ''A'' \<noteq> lit ''M'' \<and> plain_field (lit ''content/en/docs/e.md'')
           \<and> list_all plain_field []
           \<and> counterpart_exists scenario_run (lit ''dev-1.15-ko.4'') (lit ''content/en'') (lit ''content/ko'')
               (tab_line [lit ''A'', lit ''content/en/docs/e.md''])"
    by code_simp
  from dispatch_on_status_token [where run = scenario_run and tok = "lit ''A''"
         and path = "lit ''content/en/docs/e.md''" and others = "[]"
         and l = "lit ''dev-1.15-ko.3''" and r = "lit ''dev-1.15-ko.4''" and s = "lit ''content/en''"
         and t = "lit ''content/ko''" and lines = "[]" and g = initial_globals] h
  show "process_lines scenario_run [tab_line [lit ''A'', lit ''content/en/docs/e.md'']]
       (lit ''dev-1.15-ko.3'') (lit ''dev-1.15-ko.4'') (lit ''content/en'') (lit ''content/ko'')
       initial_globals
     = (Inr (), initial_globals)"
    by (simp del: tab_line.simps)
qed

text \<open>C5 for two identical revisions in a repository whose commands all succeed and print nothing.\<close>

theorem no_changes_empty_lists_witness:
  "git_diff_name_status (\<lambda>cmd. (0, [])) (lit ''dev-1.15-ko.4'') (lit ''dev-1.15-ko.4'')
     (lit ''content/en'') (lit ''content/ko'') initial_globals = (Inr (), initial_globals)"
proof -
  have out: "(\<lambda>cmd. (0::int, [] :: bytes))
               [lit ''git'', lit ''diff'', lit ''dev-1.15-ko.4'', lit ''dev-1.15-ko.4'',
                lit ''--name-status'', lit ''--'', lit ''content/en'']
             = (0, [])"
    by simp
  have blank: "bytes_strip [] = []"
    by (simp add: bytes_strip_def strip_with_def)
  from no_changes_empty_lists [OF out blank] show ?thesis .
qed

text \<open>C9 on an empty line, on a rename line without its new path, and on a path with a space.\<close>

theorem index_error_and_truncation_witness:
  "process_lines scenario_run ([] # [tab_line [lit ''D'', lit ''content/en/docs/b.md'']])
     (lit ''dev-1.15-ko.3'') (lit ''dev-1.15-ko.4'') (lit ''content/en'') (lit ''content/ko'')
     initial_globals
   = (Inl IndexError, initial_globals)
   \<and> process_lines scenario_run [tab_line [lit ''R100'', lit ''content/en/docs/c.md'']]
       (lit ''dev-1.15-ko.3'') (lit ''dev-1.15-ko.4'') (lit ''content/en'') (lit ''content/ko'')
       initial_globals
     = (Inl IndexError, initial_globals)
   \<and> str_split (lit ''M'' @ 9 # lit ''content/en/a'' @ 32 # lit ''b.md'')
     = [lit ''M'', lit ''content/en/a'', lit ''b.md'']"
proof (intro conjI)
  have few: "length (str_split []) < 2"
    by (simp add: str_split_def)
  from index_error_and_truncation [where line = "[]" and run = scenario_run
         and lines = "[tab_line [lit ''D'', lit ''content/en/docs/b.md'']]"
         and l = "lit ''dev-1.15-ko.3''" and r = "lit ''dev-1.15-ko.4''" and s = "lit ''content/en''"
         and t = "lit ''content/ko''" and g = initial_globals] few
  show "process_lines scenario_run ([] # [tab_line [lit ''D'', lit ''content/en/docs/b.md'']])
     (lit ''dev-1.15-ko.3'') (lit ''dev-1.15-ko.4'') (lit ''content/en'') (lit ''content/ko'')
     initial_globals
   = (Inl IndexError, initial_globals)"
    by blast
next
  have two: "str_split (tab_line [lit ''R100'', lit ''content/en/docs/c.md''])
               = [lit ''R100'', lit ''content/en/docs/c.md'']
             \<and> startswith (lit ''R100'') (lit ''R'')"
    by code_simp
  have c: "git_exists scenario_run (lit ''dev-1.15-ko.4'')
             (str_replace (lit ''content/en/docs/c.md'') (lit ''content/en'') (lit ''content/ko''))"
    by code_simp
  from index_error_and_truncation [where line = "tab_line [lit ''R100'', lit ''content/en/docs/c.md'']"
         and status_letter = "lit ''R100''" and filepath = "lit ''content/en/docs/c.md''"
         and run = scenario_run and lines = "[]"
         and l = "lit ''dev-1.15-ko.3''" and r = "lit ''dev-1.15-ko.4''" and s = "lit ''content/en''"
         and t = "lit ''content/ko''" and g = initial_globals] two c
  show "process_lines scenario_run [tab_line [lit ''R100'', lit ''content/en/docs/c.md'']]
       (lit ''dev-1.15-ko.3'') (lit ''dev-1.15-ko.4'') (lit ''content/en'') (lit ''content/ko'')
       initial_globals
     = (Inl IndexError, initial_globals)"
    by (simp del: tab_line.simps)
next
  have hyp: "lit ''M'' \<noteq> [] \<and> (\<forall>c\<in>set (lit ''M''). \<not> isspace c) \<and> isspace 9
        \<and> lit ''content/en/a'' \<noteq> [] \<and> (\<forall>c\<in>set (lit ''content/en/a''). \<not> isspace c) \<and> isspace 32"
    by (simp add: isspace_def lit_def)
  have last: "str_split (lit ''b.md'') = [lit ''b.md'']"
    by code_simp
  from index_error_and_truncation [where tok = "lit ''M''" and ?w1.0 = 9 and p = "lit ''content/en/a''"
         and ?w2.0 = 32 and rest = "lit ''b.md''"] hyp last
  show "str_split (lit ''M'' @ 9 # lit ''content/en/a'' @ 32 # lit ''b.md'')
     = [lit ''M'', lit ''content/en/a'', lit ''b.md'']"
    by simp
qed

text \<open>C10 on the scenario: the second pass doubles the three lists.\<close>

theorem second_pass_appends_witness:
  "git_diff_name_status scenario_run (lit ''dev-1.15-ko.3'') (lit ''dev-1.15-ko.4'') (lit ''content/en'')
     (lit ''content/ko'') initial_globals = (Inr (), scenario_globals)
   \<and> (\<exists>g2. git_diff_name_status scenario_run (lit ''dev-1.15-ko.3'') (lit ''dev-1.15-ko.4'')
             (lit ''content/en'') (lit ''content/ko'') scenario_globals = (Inr (), g2)
          \<and> files_to_be_deleted g2 = [lit ''content/en/docs/b.md'', lit ''content/en/docs/b.md'']
          \<and> length (files_to_be_renamed g2) = 2
          \<and> length (files_to_be_modified g2) = 2
          \<and> g2 \<noteq> scenario_globals)"
proof -
  have pass: "git_diff_name_status scenario_run (lit ''dev-1.15-ko.3'') (lit ''dev-1.15-ko.4'')
     (lit ''content/en'') (lit ''content/ko'') initial_globals = (Inr (), scenario_globals)"
    by code_simp
  have found: "scenario_globals \<noteq> initial_globals"
    by (simp add: scenario_globals_def initial_globals_def)
  from second_pass_appends [OF pass] obtain g2 where
    "git_diff_name_status scenario_run (lit ''dev-1.15-ko.3'') (lit ''dev-1.15-ko.4'')
       (lit ''content/en'') (lit ''content/ko'') scenario_globals = (Inr (), g2)"
    and "files_to_be_deleted g2 = files_to_be_deleted scenario_globals @ files_to_be_deleted scenario_globals"
    and "files_to_be_renamed g2 = files_to_be_renamed scenario_globals @ files_to_be_renamed scenario_globals"
    and "files_to_be_modified g2 = files_to_be_modified scenario_globals @ files_to_be_modified scenario_globals"
    and "(g2 = scenario_globals) = (scenario_globals = initial_globals)"
    by blast
  with found have "git_diff_name_status scenario_run (lit ''dev-1.15-ko.3'') (lit ''dev-1.15-ko.4'')
             (lit ''content/en'') (lit ''content/ko'') scenario_globals = (Inr (), g2)
          \<and> files_to_be_deleted g2 = [lit ''content/en/docs/b.md'', lit ''content/en/docs/b.md'']
          \<and> length (files_to_be_renamed g2) = 2
          \<and> length (files_to_be_modified g2) = 2
          \<and> g2 \<noteq> scenario_globals"
    by (simp add: scenario_globals_def)
  with pass show ?thesis by blast
qed

section \<open>Further properties\<close>

text \<open>
  Decoding leaves ASCII output as it is and raises on a byte that is not UTF-8, for
  instance a Latin-1 letter in the diff of a file. The stripped output of a command is
  empty exactly when the command printed whitespace only. Replacing the source path at
  the front of a path puts the target path there.
\<close>

lemma decode_utf8_ascii: "\<forall>b\<in>set bs. b < 128 \<Longrightarrow> decode_utf8 bs = Inr bs"
  by (induction bs) auto

lemma decode_ascii: "\<forall>c\<in>set out. (of_char c :: nat) < 128 \<Longrightarrow> decode out = Inr (map of_char out)"
  by (simp add: decode_def decode_utf8_ascii)

lemma git_diff_latin1_raises:
  "git_diff (\<lambda>cmd. (0, [CHR 0xE9])) filepath l r shortstat = Inl UnicodeDecodeError"
  by (simp add: git_diff_def check_output_def decode_def)

lemma strip_with_empty_iff: "(strip_with p s = []) = (\<forall>c\<in>set s. p c)"
proof (cases "dropWhile p s")
  case Nil
  have all: "\<forall>c\<in>set s. p c"
    using Nil dropWhile_eq_Nil_conv [of p s] by simp
  have "strip_with p s = []"
    unfolding strip_with_def by (simp only: Nil) simp
  with all show ?thesis by simp
next
  case (Cons c cs)
  then have npc: "\<not> p c"
    using hd_dropWhile [of p s] by simp
  from Cons have "c \<in> set (rev (dropWhile p s))"
    by simp
  with npc have "\<not> (\<forall>x\<in>set (rev (dropWhile p s)). p x)"
    by blast
  then have "dropWhile p (rev (dropWhile p s)) \<noteq> []"
    using dropWhile_eq_Nil_conv [of p "rev (dropWhile p s)"] by blast
  then have a: "strip_with p s \<noteq> []"
    unfolding strip_with_def by simp
  from Cons have "dropWhile p s \<noteq> []"
    by simp
  then have b: "\<not> (\<forall>c\<in>set s. p c)"
    using dropWhile_eq_Nil_conv [of p s] by blast
  from a b show ?thesis by blast
qed

lemma str_strip_empty_iff: "(str_strip text = []) = (\<forall>c\<in>set text. isspace c)"
  by (simp add: str_strip_def strip_with_empty_iff)

lemma str_replace_prefix:
  "s \<noteq> [] \<Longrightarrow> str_replace (s @ rest) s t = t @ str_replace rest s t"
  by (cases s) (simp_all add: str_replace_def)

text \<open>
  The whole run. With no changed path the script prints the report with three zero
  counts and nothing under the header of the proposed solution; on the scenario it
  prints the report of the scenario.
\<close>

lemma main_no_changes:
  assumes "run [lit ''git'', lit ''diff'', l, r, lit ''--name-status'', lit ''--'',
                lit ''content/'' @ src_lang] = (0, out)"
    and "bytes_strip out = []"
  shows "main run l10n_lang src_lang l r =
     Inr (lit ''# This is a Bug Report\<newline>## Problem\<newline>Outdated files in the '' @ r
          @ lit '' branch.\<newline>\<newline>### 0 files to be modified \<newline>\<newline>\<newline>### 0 files to be renamed  \<newline>\<newline>\<newline>### 0 files to be deleted \<newline>\<newline>\<newline>## Proposed Solution\<newline>\<newline>\<newline>\<newline>## Pages to Update\<newline>\<newline>'')"
proof -
  have pass: "git_diff_name_status run l r (lit ''content/'' @ src_lang) (lit ''content/'' @ l10n_lang)
                initial_globals = (Inr (), initial_globals)"
    using assms
    by (simp add: git_diff_name_status_def check_output_def splitlines_def decode_def)
  have zero: "str_of_nat 0 = [48]"
    by code_simp
  have "main run l10n_lang src_lang l r =
          (case render l r (lit ''content/'' @ src_lang) (lit ''content/'' @ l10n_lang) initial_globals of
             Inl e \<Rightarrow> Inl e
           | Inr ret \<Rightarrow> Inr (ret @ lit ''\<newline>''))"
    using pass by (simp add: main_def Let_def)
  then show ?thesis
    by (simp add: render_report checklists_def solution_body_def initial_globals_def zero lit_def
             del: str_of_nat.simps)
qed

lemma main_scenario:
  "main scenario_run (lit ''ko'') (lit ''en'') (lit ''dev-1.15-ko.3'') (lit ''dev-1.15-ko.4'') =
     Inr (lit ''# This is a Bug Report\<newline>## Problem\<newline>Outdated files in the dev-1.15-ko.4 branch.\<newline>\<newline>### 1 files to be modified \<newline>1. [ ] content/en/docs/a.md 1 file changed, 1 insertion(+), 1 deletion(-)\<newline>\<newline>\<newline>### 1 files to be renamed  \<newline>1. [ ] R100 content/en/docs/c.md -> content/en/docs/d.md\<newline>\<newline>\<newline>### 1 files to be deleted \<newline>1. [ ] content/en/docs/b.md\<newline>\<newline>\<newline>## Proposed Solution\<newline>\<newline>\<newline>\<newline>Use `git diff` to check what is changed in the upstream. And apply the upstream changes manually \<newline>to the `content/ko` of `dev-1.15-ko.4` branch.\<newline>\<newline>For example:\<newline>```\<newline># checkout `dev-1.15-ko.4`\<newline>...\<newline># check what is updated in the upstream \<newline>git diff dev-1.15-ko.3 dev-1.15-ko.4 -- content/en/docs/a.md\<newline># apply changes to content/ko\<newline>vi content/ko/docs/a.md\<newline>...\<newline># commit and push\<newline>...\<newline># make PR to `dev-1.15-ko.4`\<newline>```\<newline>\<newline>\<newline>\<newline>## Pages to Update\<newline>\<newline>'')"
  by code_simp

end
